theory Spec2Isabelle
  imports Main "HOL-Library.Sublist"
begin

section \<open>JavaScript strings\<close>

text \<open>
  A JavaScript string is modelled as a \<^typ>\<open>string\<close>, one \<^typ>\<open>char\<close> per code unit.
  A template literal is the concatenation of its pieces. A string literal of the source
  that starts or ends with a single quote is written with \<open>sq\<close>.
\<close>

definition sq :: string where
  "sq = [CHR 0x27]"

text \<open>The fragment \<^verbatim>\<open>'${s}'\<close> of a template literal.\<close>

definition quoted :: "string \<Rightarrow> string" where
  "quoted s = sq @ s @ sq"

text \<open>\<^verbatim>\<open>s.includes(sub)\<close>: \<open>sub\<close> occurs in \<open>s\<close> as a contiguous run of code units.\<close>

fun str_includes :: "string \<Rightarrow> string \<Rightarrow> bool" where
  "str_includes [] sub = (sub = [])"
| "str_includes (c # cs) sub = (prefix sub (c # cs) \<or> str_includes cs sub)"

text \<open>\<^verbatim>\<open>xs.join(sep)\<close> on an array of strings.\<close>

fun join :: "string \<Rightarrow> string list \<Rightarrow> string" where
  "join sep [] = []"
| "join sep [x] = x"
| "join sep (x # y # ys) = x @ sep @ join sep (y # ys)"

text \<open>A non-negative integer inside a template literal: its decimal digits.\<close>

definition digit :: "nat \<Rightarrow> char" where
  "digit d = char_of (48 + d)"

fun string_of_nat :: "nat \<Rightarrow> string" where
  "string_of_nat n =
     (if 9 < n then string_of_nat (n div 10) @ [digit (n mod 10)] else [digit n])"

text \<open>\<^verbatim>\<open>x || d\<close> where \<open>x\<close> is a string or \<^verbatim>\<open>undefined\<close>: both \<^verbatim>\<open>undefined\<close> and the empty
  string are falsy.\<close>

definition or_default :: "string option \<Rightarrow> string \<Rightarrow> string" where
  "or_default x d = (case x of None \<Rightarrow> d | Some v \<Rightarrow> if v = [] then d else v)"

section \<open>Tool arguments and results\<close>

text \<open>
  The argument payload of a tool call, typed by the input schemas of the tool catalog
  (\<^verbatim>\<open>setupToolHandlers\<close>): a property that some schema lists under \<^verbatim>\<open>required\<close> is a plain
  value, an optional property is \<open>None\<close> when it is absent. A tool reads only the
  properties of its own schema. The payload as a whole may be absent
  (\<^verbatim>\<open>undefined\<close>), which is \<open>None\<close> at the router.

  \<open>script_action\<close> is an element of the \<^verbatim>\<open>actions\<close> array of \<^verbatim>\<open>generate_test\<close> as
  \<^verbatim>\<open>generatePlaywrightTest\<close> looks at it: it reads \<^verbatim>\<open>action.code\<close>, \<^verbatim>\<open>action.name\<close> and
  \<^verbatim>\<open>action.arguments\<close>, each of which may be absent.
\<close>

record call_args =
  arg_headless :: "bool option"
  arg_url :: string
  arg_selector :: string
  arg_timeout :: "int option"
  arg_text :: string
  arg_filename :: "string option"
  arg_query :: string
  arg_elementType :: "string option"

record script_action =
  sa_code :: "string option"
  sa_name :: "string option"
  sa_arguments :: "call_args option"

record tool_args = call_args +
  arg_testName :: string
  arg_description :: "string option"
  arg_actions :: "script_action list option"

text \<open>An orchestrator-level action \<^verbatim>\<open>{name, arguments}\<close> with both properties present.\<close>

record ai_action =
  act_name :: string
  act_arguments :: call_args

text \<open>A tool result \<^verbatim>\<open>{content: [...]}\<close> is its content array.\<close>

record content_item =
  item_type :: string
  item_text :: string

type_synonym tool_result = "content_item list"

definition text_result :: "string \<Rightarrow> tool_result" where
  "text_result t = [\<lparr>item_type = ''text'', item_text = t\<rparr>]"

section \<open>Script generator\<close>

text \<open>\<^verbatim>\<open>convertActionToPlaywrightCode(action)\<close>; \<open>None\<close> is \<^verbatim>\<open>null\<close>.\<close>

definition convertActionToPlaywrightCode :: "ai_action \<Rightarrow> string option" where
  \<open>convertActionToPlaywrightCode action =
     (let args = act_arguments action in
      if act_name action = ''launch_browser'' then None
      else if act_name action = ''navigate_to'' then
        Some (''await page.goto('' @ quoted (arg_url args) @ '');'')
      else if act_name action = ''click_element'' then
        Some (''await page.click('' @ quoted (arg_selector args) @ '');'')
      else if act_name action = ''fill_input'' then
        Some (''await page.fill('' @ quoted (arg_selector args) @ '', ''
                @ quoted (arg_text args) @ '');'')
      else if act_name action = ''wait_for_element'' then
        Some (''await page.waitForSelector('' @ quoted (arg_selector args) @ '');'')
      else if act_name action = ''take_screenshot'' then
        (let filename = or_default (arg_filename args) ''screenshot.png''
         in Some (''await page.screenshot({ path: '' @ quoted filename @ '' });''))
      else if act_name action = ''github_search'' then
        Some (''await page.fill('' @ quoted ''[data-target="query-builder.input"]'' @ '', ''
                @ quoted (arg_query args) @ '');'' @ [CHR 0x0A]
              @ ''  await page.press('' @ quoted ''[data-target="query-builder.input"]''
              @ '', '' @ quoted ''Enter'' @ '');'')
      else if act_name action = ''inspect_page'' then None
      else if act_name action = ''get_page_content'' then None
      else if act_name action = ''close_browser'' then None
      else Some (''// Unsupported action: '' @ act_name action))\<close>

text \<open>
  The body of the \<^verbatim>\<open>forEach\<close> callback of \<^verbatim>\<open>generatePlaywrightTest\<close>: the text one
  action adds to \<^verbatim>\<open>testCode\<close>. A truthy \<^verbatim>\<open>action.code\<close> is taken literally; otherwise a
  truthy \<^verbatim>\<open>action.name\<close> with an \<^verbatim>\<open>action.arguments\<close> object is translated, and a truthy
  translation becomes a line.
\<close>

definition action_line :: "script_action \<Rightarrow> string" where
  "action_line action =
     (if sa_code action \<noteq> None \<and> sa_code action \<noteq> Some [] then
        ''  '' @ the (sa_code action) @ [CHR 0x0A]
      else if sa_name action \<noteq> None \<and> sa_name action \<noteq> Some [] \<and> sa_arguments action \<noteq> None then
        (case convertActionToPlaywrightCode
                \<lparr>act_name = the (sa_name action), act_arguments = the (sa_arguments action)\<rparr> of
           None \<Rightarrow> []
         | Some playwrightCode \<Rightarrow>
             if playwrightCode = [] then [] else ''  '' @ playwrightCode @ [CHR 0x0A])
      else [])"

definition generatePlaywrightTest :: "string \<Rightarrow> string \<Rightarrow> script_action list \<Rightarrow> string" where
  "generatePlaywrightTest testName description acts =
     (let testDescription = (if description = [] then testName else description);
          testCode = ''import { test, expect } from '' @ quoted ''@playwright/test'' @ '';''
                       @ [CHR 0x0A, CHR 0x0A];
          testCode = testCode @ ''test('' @ quoted testDescription
                       @ '', async ({ page }) => {'' @ [CHR 0x0A];
          testCode = foldl (\<lambda>code action. code @ action_line action) testCode acts
      in testCode @ ''});'' @ [CHR 0x0A])"

section \<open>Effects\<close>

text \<open>
  An asynchronous operation that is awaited either returns a value or throws; the model
  keeps the message of the thrown \<^verbatim>\<open>Error\<close> (\<open>Inl\<close>) and passes the state along, also
  when the operation throws. Every awaited promise is taken to settle.
\<close>

type_synonym ('a, 's) eff = "'s \<Rightarrow> (string + 'a) \<times> 's"

definition returnE :: "'a \<Rightarrow> ('a, 's) eff" where
  "returnE a = (\<lambda>s. (Inr a, s))"

definition throwE :: "string \<Rightarrow> ('a, 's) eff" where
  "throwE msg = (\<lambda>s. (Inl msg, s))"

definition bindE :: "('a, 's) eff \<Rightarrow> ('a \<Rightarrow> ('b, 's) eff) \<Rightarrow> ('b, 's) eff" where
  "bindE m f = (\<lambda>s. case m s of (Inl e, s') \<Rightarrow> (Inl e, s') | (Inr a, s') \<Rightarrow> f a s')"

text \<open>\<^verbatim>\<open>try { m } catch (error) { h(error.message) }\<close>\<close>

definition catchE :: "('a, 's) eff \<Rightarrow> (string \<Rightarrow> ('a, 's) eff) \<Rightarrow> ('a, 's) eff" where
  "catchE m h = (\<lambda>s. case m s of (Inl e, s') \<Rightarrow> h e s' | (Inr a, s') \<Rightarrow> (Inr a, s'))"

text \<open>The messages of the \<^verbatim>\<open>TypeError\<close> that Node.js throws when a property of
  \<^verbatim>\<open>undefined\<close> or of \<^verbatim>\<open>null\<close> is read.\<close>

definition undefined_read :: "string \<Rightarrow> string" where
  "undefined_read p = ''Cannot read properties of undefined (reading '' @ quoted p @ '')''"

definition null_read :: "string \<Rightarrow> string" where
  "null_read p = ''Cannot read properties of null (reading '' @ quoted p @ '')''"

section \<open>The browser\<close>

text \<open>
  The browser and the page it shows are outside the program. Their state is a value of
  an arbitrary type \<open>'w\<close>, and the Playwright calls the driver makes are the fields of a
  record of operations on it, so that every statement below holds for every behaviour
  of the browser. A callback that Playwright evaluates inside the page
  (\<^verbatim>\<open>$$eval\<close>, \<^verbatim>\<open>evaluate\<close>) belongs to the call that ships it; its result is JSON data.
  \<^verbatim>\<open>JSON.stringify\<close> and \<^verbatim>\<open>encodeURIComponent\<close> are the JavaScript built-ins.
\<close>

datatype json =
    JNull
  | JBool bool
  | JNum int
  | JStr string
  | JArr "json list"
  | JObj "(string \<times> json) list"

text \<open>The options object of \<^verbatim>\<open>waitForSelector\<close>.\<close>

record wait_options =
  opt_timeout :: int
  opt_state :: "string option"

text \<open>What \<^verbatim>\<open>page.evaluate\<close> returns in \<^verbatim>\<open>inspectPage\<close>.\<close>

record inspection =
  insp_url :: string
  insp_title :: string
  insp_forms :: "json list"
  insp_inputs :: "json list"
  insp_buttons :: "json list"
  insp_links :: "json list"

datatype page_callback = ClickableInfo | InputInfo

record 'w playwright =
  chromium_launch :: "bool \<Rightarrow> (unit, 'w) eff"
  browser_newPage :: "(unit, 'w) eff"
  browser_close :: "(unit, 'w) eff"
  page_goto :: "string \<Rightarrow> (unit, 'w) eff"
  page_url :: "'w \<Rightarrow> string"
  page_title :: "(string, 'w) eff"
  page_content :: "(string, 'w) eff"
  page_waitForSelector :: "string \<Rightarrow> wait_options \<Rightarrow> (unit, 'w) eff"
  page_waitForTimeout :: "int \<Rightarrow> (unit, 'w) eff"
  page_fill :: "string \<Rightarrow> string \<Rightarrow> (unit, 'w) eff"
  page_inputValue :: "string \<Rightarrow> (string, 'w) eff"
  page_screenshot :: "string \<Rightarrow> (unit, 'w) eff"
  page_evalAll :: "string \<Rightarrow> page_callback \<Rightarrow> (json list, 'w) eff"
  page_evaluate :: "string \<Rightarrow> (inspection, 'w) eff"
  keyboard_press :: "string \<Rightarrow> (unit, 'w) eff"
  keyboard_type :: "string \<Rightarrow> (unit, 'w) eff"
  locator_isVisible :: "string \<Rightarrow> (bool, 'w) eff"
  locator_isEnabled :: "string \<Rightarrow> (bool, 'w) eff"
  locator_scrollIntoViewIfNeeded :: "string \<Rightarrow> (unit, 'w) eff"
  locator_click :: "string \<Rightarrow> (unit, 'w) eff"
  locator_fill :: "string \<Rightarrow> string \<Rightarrow> (unit, 'w) eff"
  locator_press :: "string \<Rightarrow> string \<Rightarrow> (unit, 'w) eff"
  JSON_stringify :: "json \<Rightarrow> nat option \<Rightarrow> string"
  encodeURIComponent :: "string \<Rightarrow> string + string"

section \<open>The driver\<close>

text \<open>
  \<^verbatim>\<open>src/mcp-server.js\<close> holds two variants of \<^verbatim>\<open>PlaywrightMCPServer\<close>. The model is the
  first one (lines 1 to 962), the one with selector resolution, GitHub search and page
  inspection, whose \<^verbatim>\<open>launchBrowser\<close> leaves a running browser alone. The second variant
  launches again without asking and clicks and fills with the caller's selector only.
\<close>

text \<open>A record of the action log, one constructor for each \<^verbatim>\<open>type\<close>; \<open>rec_code\<close> is
  the \<^verbatim>\<open>code\<close> property.\<close>

datatype action =
    Navigate (rec_url: string) (rec_code: string)
  | Click (rec_selector: string) (rec_code: string)
  | Fill (rec_selector: string) (rec_text: string) (rec_actualValue: string) (rec_code: string)
  | Wait (rec_selector: string) (rec_code: string)
  | Screenshot (rec_filename: string) (rec_code: string)
  | GithubSearch (rec_query: string) (rec_strategy: string) (rec_code: string)

text \<open>The fields of \<^verbatim>\<open>PlaywrightMCPServer\<close>: whether \<^verbatim>\<open>this.browser\<close> and \<^verbatim>\<open>this.page\<close>
  hold a handle, the log \<^verbatim>\<open>this.actions\<close>, and the browser behind the handles.\<close>

record 'w driver =
  browser :: bool
  page :: bool
  actions :: "action list"
  world :: 'w

definition PlaywrightMCPServer :: "'w \<Rightarrow> 'w driver" where
  "PlaywrightMCPServer w = \<lparr>browser = False, page = False, actions = [], world = w\<rparr>"

definition on_world :: "('a, 'w) eff \<Rightarrow> ('a, 'w driver) eff" where
  "on_world m = (\<lambda>s. case m (world s) of (r, w') \<Rightarrow> (r, s\<lparr>world := w'\<rparr>))"

definition modify :: "('s \<Rightarrow> 's) \<Rightarrow> (unit, 's) eff" where
  "modify f = (\<lambda>s. (Inr (), f s))"

text \<open>\<^verbatim>\<open>this.actions.push(a)\<close>\<close>

definition push :: "action \<Rightarrow> (unit, 'w driver) eff" where
  "push a = modify (\<lambda>s. s\<lparr>actions := actions s @ [a]\<rparr>)"

definition not_launched :: string where
  "not_launched = ''Browser not launched. Call launch_browser first.''"

definition mode :: "bool \<Rightarrow> string" where
  "mode headless = (if headless then ''headless'' else ''headed'')"

definition launchBrowser :: "'w playwright \<Rightarrow> bool \<Rightarrow> (tool_result, 'w driver) eff" where
  "launchBrowser pw headless = (\<lambda>s.
     if browser s then
       returnE (text_result (''Browser already running in '' @ mode headless @ '' mode'')) s
     else
       bindE (on_world (chromium_launch pw headless)) (\<lambda>_.
       bindE (modify (\<lambda>s. s\<lparr>browser := True\<rparr>)) (\<lambda>_.
       bindE (on_world (browser_newPage pw)) (\<lambda>_.
       bindE (modify (\<lambda>s. s\<lparr>page := True\<rparr>)) (\<lambda>_.
       bindE (modify (\<lambda>s. s\<lparr>actions := []\<rparr>)) (\<lambda>_.
       returnE (text_result (''Browser launched in '' @ mode headless @ '' mode''))))))) s)"

definition navigateTo :: "'w playwright \<Rightarrow> string \<Rightarrow> (tool_result, 'w driver) eff" where
  "navigateTo pw url = (\<lambda>s.
     if \<not> page s then throwE not_launched s
     else
       bindE (on_world (page_goto pw url)) (\<lambda>_.
       bindE (push (Navigate url (''await page.goto('' @ quoted url @ '');''))) (\<lambda>_.
       returnE (text_result (''Navigated to '' @ url)))) s)"

subsection \<open>click\<close>

definition github_click_selectors :: "string list" where
  \<open>github_click_selectors =
     [''[data-target="query-builder.input"]'',
      ''input[name="q"]'',
      ''#query-builder-test'',
      ''input[placeholder*="Search"]'',
      ''input[aria-label*="Search"]'',
      ''button[type="submit"]'',
      ''[data-testid="search-button"]'']\<close>

definition click_selectorsToTry :: "string \<Rightarrow> string \<Rightarrow> string list" where
  "click_selectorsToTry url selector =
     (if str_includes url ''github.com'' then github_click_selectors @ [selector]
      else [selector])"

text \<open>The body of the \<^verbatim>\<open>try\<close> block inside the loop of \<^verbatim>\<open>clickElement\<close>.\<close>

definition click_attempt :: "'w playwright \<Rightarrow> int \<Rightarrow> string \<Rightarrow> (tool_result, 'w driver) eff" where
  "click_attempt pw timeout currentSelector =
     bindE (on_world (page_waitForSelector pw currentSelector
              \<lparr>opt_timeout = min timeout 5000, opt_state = Some ''visible''\<rparr>)) (\<lambda>_.
     bindE (on_world (locator_isVisible pw currentSelector)) (\<lambda>isVisible.
     bindE (on_world (locator_isEnabled pw currentSelector)) (\<lambda>isEnabled.
     if \<not> isVisible then throwE (''Element '' @ currentSelector @ '' is not visible'')
     else if \<not> isEnabled then
       throwE (''Element '' @ currentSelector @ '' is not enabled/clickable'')
     else
       bindE (on_world (locator_scrollIntoViewIfNeeded pw currentSelector)) (\<lambda>_.
       bindE (on_world (locator_click pw currentSelector)) (\<lambda>_.
       bindE (push (Click currentSelector
                (''await page.click('' @ quoted currentSelector @ '');''))) (\<lambda>_.
       returnE (text_result (''Successfully clicked element: '' @ currentSelector))))))))"

text \<open>
  The \<^verbatim>\<open>for\<close> loop over \<^verbatim>\<open>selectorsToTry\<close>, with \<^verbatim>\<open>lastError\<close> (\<open>None\<close> is \<^verbatim>\<open>null\<close>) as
  accumulator. \<open>Inl\<close> is the \<^verbatim>\<open>return\<close> from inside the loop, \<open>Inr\<close> the message in
  \<^verbatim>\<open>lastError\<close> when the loop has run through.
\<close>

fun click_loop ::
  "'w playwright \<Rightarrow> int \<Rightarrow> string list \<Rightarrow> string option \<Rightarrow> 'w driver
     \<Rightarrow> (tool_result + string option) \<times> 'w driver" where
  "click_loop pw timeout [] lastError s = (Inr lastError, s)"
| "click_loop pw timeout (currentSelector # rest) lastError s =
     (case click_attempt pw timeout currentSelector s of
        (Inr result, s') \<Rightarrow> (Inl result, s')
      | (Inl error, s') \<Rightarrow> click_loop pw timeout rest (Some error) s')"

text \<open>\<^verbatim>\<open>lastError.message\<close>\<close>

definition message_of :: "string option \<Rightarrow> (string, 's) eff" where
  "message_of lastError =
     (case lastError of None \<Rightarrow> throwE (null_read ''message'') | Some m \<Rightarrow> returnE m)"

definition clickable_query :: string where
  \<open>clickable_query =
     ''button, input[type="submit"], input[type="button"], a, [onclick], [data-target]''\<close>

text \<open>The statements after the loop: the \<^verbatim>\<open>throw\<close> inside the \<^verbatim>\<open>try\<close> block is caught by
  the \<^verbatim>\<open>catch\<close> of that block, like a failure of \<^verbatim>\<open>$$eval\<close>.\<close>

definition click_exhausted ::
  "'w playwright \<Rightarrow> string \<Rightarrow> string list \<Rightarrow> string option \<Rightarrow> (tool_result, 'w driver) eff" where
  "click_exhausted pw selector selectorsToTry lastError =
     catchE
       (bindE (on_world (page_evalAll pw clickable_query ClickableInfo)) (\<lambda>clickableElements.
        bindE (message_of lastError) (\<lambda>lastMessage.
        throwE (''Failed to click element with any selector: '' @ join '', '' selectorsToTry
                @ ''. Last error: '' @ lastMessage
                @ ''. Available clickable elements: ''
                @ JSON_stringify pw (JArr clickableElements) None))))
       (\<lambda>evalError.
        bindE (message_of lastError) (\<lambda>lastMessage.
        throwE (''Failed to click element '' @ selector @ '': '' @ lastMessage
                @ ''. Could not inspect available elements: '' @ evalError)))"

definition clickElement ::
  "'w playwright \<Rightarrow> string \<Rightarrow> int option \<Rightarrow> (tool_result, 'w driver) eff" where
  "clickElement pw selector timeout_arg = (\<lambda>s.
     let timeout = (case timeout_arg of None \<Rightarrow> 30000 | Some t \<Rightarrow> t) in
     if \<not> page s then throwE not_launched s
     else
       let url = page_url pw (world s);
           selectorsToTry = click_selectorsToTry url selector
       in case click_loop pw timeout selectorsToTry None s of
            (Inl result, s') \<Rightarrow> (Inr result, s')
          | (Inr lastError, s') \<Rightarrow> click_exhausted pw selector selectorsToTry lastError s')"

subsection \<open>fill\<close>

definition github_fill_selectors :: "string list" where
  \<open>github_fill_selectors =
     [''[data-target="query-builder.input"]'',
      ''input[name="q"]'',
      ''#query-builder-test'',
      ''input[placeholder*="Search"]'',
      ''input[aria-label*="Search"]'']\<close>

definition google_fill_selectors :: "string list" where
  \<open>google_fill_selectors =
     [''input[name="q"]'', ''textarea[name="q"]'', ''input[title="Search"]'']\<close>

definition fill_selectorsToTry :: "string \<Rightarrow> string \<Rightarrow> string list" where
  "fill_selectorsToTry url selector =
     (if str_includes url ''github.com'' then github_fill_selectors @ [selector]
      else if str_includes url ''google.com'' then google_fill_selectors @ [selector]
      else [selector])"

text \<open>The body of the \<^verbatim>\<open>try\<close> block inside the loop of \<^verbatim>\<open>fillInput\<close>.\<close>

definition fill_attempt :: "'w playwright \<Rightarrow> string \<Rightarrow> string \<Rightarrow> (tool_result, 'w driver) eff" where
  "fill_attempt pw text currentSelector =
     bindE (on_world (page_waitForSelector pw currentSelector
              \<lparr>opt_timeout = 5000, opt_state = Some ''visible''\<rparr>)) (\<lambda>_.
     bindE (on_world (locator_isVisible pw currentSelector)) (\<lambda>isVisible.
     if \<not> isVisible then throwE (''Element '' @ currentSelector @ '' is not visible'')
     else
       bindE (on_world (page_fill pw currentSelector [])) (\<lambda>_.
       bindE (on_world (page_fill pw currentSelector text)) (\<lambda>_.
       bindE (on_world (page_inputValue pw currentSelector)) (\<lambda>filledValue.
       bindE (push (Fill currentSelector text filledValue
                (''await page.fill('' @ quoted currentSelector @ '', '' @ quoted text @ '');'')))
         (\<lambda>_.
       returnE (text_result (''Successfully filled input '' @ currentSelector @ '' with: ''
                  @ text @ '' (actual value: '' @ filledValue @ '')''))))))))"

fun fill_loop ::
  "'w playwright \<Rightarrow> string \<Rightarrow> string list \<Rightarrow> string option \<Rightarrow> 'w driver
     \<Rightarrow> (tool_result + string option) \<times> 'w driver" where
  "fill_loop pw text [] lastError s = (Inr lastError, s)"
| "fill_loop pw text (currentSelector # rest) lastError s =
     (case fill_attempt pw text currentSelector s of
        (Inr result, s') \<Rightarrow> (Inl result, s')
      | (Inl error, s') \<Rightarrow> fill_loop pw text rest (Some error) s')"

definition fill_exhausted ::
  "'w playwright \<Rightarrow> string \<Rightarrow> string list \<Rightarrow> string option \<Rightarrow> (tool_result, 'w driver) eff" where
  "fill_exhausted pw selector selectorsToTry lastError =
     catchE
       (bindE (on_world (page_evalAll pw ''input, textarea, select'' InputInfo)) (\<lambda>inputs.
        bindE (message_of lastError) (\<lambda>lastMessage.
        throwE (''Failed to fill input with any selector: '' @ join '', '' selectorsToTry
                @ ''. Last error: '' @ lastMessage
                @ ''. Available inputs: '' @ JSON_stringify pw (JArr inputs) None))))
       (\<lambda>evalError.
        bindE (message_of lastError) (\<lambda>lastMessage.
        throwE (''Failed to fill input '' @ selector @ '': '' @ lastMessage
                @ ''. Could not inspect available inputs: '' @ evalError)))"

definition fillInput :: "'w playwright \<Rightarrow> string \<Rightarrow> string \<Rightarrow> (tool_result, 'w driver) eff" where
  "fillInput pw selector text = (\<lambda>s.
     if \<not> page s then throwE not_launched s
     else
       let url = page_url pw (world s);
           selectorsToTry = fill_selectorsToTry url selector
       in case fill_loop pw text selectorsToTry None s of
            (Inl result, s') \<Rightarrow> (Inr result, s')
          | (Inr lastError, s') \<Rightarrow> fill_exhausted pw selector selectorsToTry lastError s')"

subsection \<open>wait, screenshot\<close>

definition waitForElement ::
  "'w playwright \<Rightarrow> string \<Rightarrow> int option \<Rightarrow> (tool_result, 'w driver) eff" where
  "waitForElement pw selector timeout_arg = (\<lambda>s.
     let timeout = (case timeout_arg of None \<Rightarrow> 30000 | Some t \<Rightarrow> t) in
     if \<not> page s then throwE not_launched s
     else
       bindE (on_world (page_waitForSelector pw selector
                \<lparr>opt_timeout = timeout, opt_state = None\<rparr>)) (\<lambda>_.
       bindE (push (Wait selector (''await page.waitForSelector('' @ quoted selector @ '');'')))
         (\<lambda>_.
       returnE (text_result (''Element found: '' @ selector)))) s)"

definition takeScreenshot :: "'w playwright \<Rightarrow> string option \<Rightarrow> (tool_result, 'w driver) eff" where
  "takeScreenshot pw filename_arg = (\<lambda>s.
     let filename = (case filename_arg of None \<Rightarrow> ''screenshot.png'' | Some f \<Rightarrow> f) in
     if \<not> page s then throwE not_launched s
     else
       bindE (on_world (page_screenshot pw filename)) (\<lambda>_.
       bindE (push (Screenshot filename
                (''await page.screenshot({ path: '' @ quoted filename @ '' });''))) (\<lambda>_.
       returnE (text_result (''Screenshot saved as '' @ filename)))) s)"

subsection \<open>GitHub search\<close>

definition searchSelectors :: "string list" where
  \<open>searchSelectors =
     [''[data-target="query-builder.input"]'',
      ''input[name="q"]'',
      ''#query-builder-test'',
      ''input[placeholder*="Search"]'',
      ''input[aria-label*="Search"]'',
      ''.js-site-search-focus'']\<close>

text \<open>The \<^verbatim>\<open>try\<close> block inside the loop of the first strategy: \<open>True\<close> when it reaches
  \<^verbatim>\<open>return selector\<close>, \<open>False\<close> when the element is not visible and the loop goes on.\<close>

definition search_input_attempt :: "'w playwright \<Rightarrow> string \<Rightarrow> string \<Rightarrow> (bool, 'w driver) eff" where
  "search_input_attempt pw query selector =
     bindE (on_world (page_waitForSelector pw selector
              \<lparr>opt_timeout = 3000, opt_state = Some ''visible''\<rparr>)) (\<lambda>_.
     bindE (on_world (locator_isVisible pw selector)) (\<lambda>isVisible.
     if isVisible then
       bindE (on_world (locator_click pw selector)) (\<lambda>_.
       bindE (on_world (locator_fill pw selector query)) (\<lambda>_.
       bindE (on_world (locator_press pw selector ''Enter'')) (\<lambda>_.
       returnE True)))
     else returnE False))"

fun search_input_loop :: "'w playwright \<Rightarrow> string \<Rightarrow> string list \<Rightarrow> (string, 'w driver) eff" where
  "search_input_loop pw query [] s = throwE ''No search input found'' s"
| "search_input_loop pw query (selector # rest) s =
     (case search_input_attempt pw query selector s of
        (Inr True, s') \<Rightarrow> (Inr selector, s')
      | (Inr False, s') \<Rightarrow> search_input_loop pw query rest s'
      | (Inl e, s') \<Rightarrow> search_input_loop pw query rest s')"

definition searchStrategies :: "'w playwright \<Rightarrow> string \<Rightarrow> (string, 'w driver) eff list" where
  "searchStrategies pw query =
     [search_input_loop pw query searchSelectors,
      bindE (on_world (keyboard_press pw ''s'')) (\<lambda>_.
      bindE (on_world (page_waitForTimeout pw 500)) (\<lambda>_.
      bindE (on_world (keyboard_type pw query)) (\<lambda>_.
      bindE (on_world (keyboard_press pw ''Enter'')) (\<lambda>_.
      returnE ''keyboard-shortcut'')))),
      (case encodeURIComponent pw query of
         Inl e \<Rightarrow> throwE e
       | Inr encoded \<Rightarrow>
           bindE (on_world (page_goto pw (''https://github.com/search?q='' @ encoded))) (\<lambda>_.
           returnE ''direct-url''))]"

text \<open>The loop over the strategies, with \<^verbatim>\<open>usedStrategy\<close> and \<^verbatim>\<open>lastError\<close>.\<close>

fun run_strategies ::
  "(string, 's) eff list \<Rightarrow> string option \<Rightarrow> 's \<Rightarrow> (string option \<times> string option) \<times> 's" where
  "run_strategies [] lastError s = ((None, lastError), s)"
| "run_strategies (strategy # rest) lastError s =
     (case strategy s of
        (Inr usedStrategy, s') \<Rightarrow> ((Some usedStrategy, lastError), s')
      | (Inl error, s') \<Rightarrow> run_strategies rest (Some error) s')"

definition results_query :: string where
  \<open>results_query = ''[data-testid="results-list"], .repo-list, .search-results''\<close>

definition githubSearch :: "'w playwright \<Rightarrow> string \<Rightarrow> (tool_result, 'w driver) eff" where
  \<open>githubSearch pw query = (\<lambda>s.
     if \<not> page s then throwE not_launched s
     else
       catchE
         (bindE (\<lambda>s. case run_strategies (searchStrategies pw query) None s of (r, s') \<Rightarrow> (Inr r, s'))
            (\<lambda>(usedStrategy, lastError).
          if usedStrategy = None \<or> usedStrategy = Some [] then
            bindE (message_of lastError) (\<lambda>lastMessage.
            throwE (''All GitHub search strategies failed. Last error: '' @ lastMessage))
          else
            bindE (catchE
                     (on_world (page_waitForSelector pw results_query
                        \<lparr>opt_timeout = 10000, opt_state = None\<rparr>))
                     (\<lambda>e. on_world (page_waitForTimeout pw 2000))) (\<lambda>_.
            bindE (push (GithubSearch query (the usedStrategy)
                     (''// GitHub search for: '' @ query @ '' using strategy: ''
                        @ the usedStrategy))) (\<lambda>_.
            returnE (text_result (''Successfully performed GitHub search for "'' @ query
                       @ ''" using strategy: '' @ the usedStrategy))))))
         (\<lambda>error.
          bindE (\<lambda>s. (Inr (page_url pw (world s)), s)) (\<lambda>currentUrl.
          bindE (on_world (page_title pw)) (\<lambda>pageTitle.
          throwE (''GitHub search failed: '' @ error @ ''. Current URL: '' @ currentUrl
                  @ '', Page title: '' @ pageTitle)))) s)\<close>

subsection \<open>inspect, page content\<close>

definition inspection_json :: "inspection \<Rightarrow> json" where
  "inspection_json i =
     JObj [(''url'', JStr (insp_url i)), (''title'', JStr (insp_title i)),
           (''forms'', JArr (insp_forms i)), (''inputs'', JArr (insp_inputs i)),
           (''buttons'', JArr (insp_buttons i)), (''links'', JArr (insp_links i))]"

definition inspectPage :: "'w playwright \<Rightarrow> string \<Rightarrow> (tool_result, 'w driver) eff" where
  "inspectPage pw elementType = (\<lambda>s.
     if \<not> page s then throwE not_launched s
     else
       bindE (on_world (page_evaluate pw elementType)) (\<lambda>inspection.
       returnE (text_result (''Page inspection complete. Found ''
         @ string_of_nat (length (insp_forms inspection)) @ '' forms, ''
         @ string_of_nat (length (insp_inputs inspection)) @ '' inputs, ''
         @ string_of_nat (length (insp_buttons inspection)) @ '' buttons.''
         @ [CHR 0x0A, CHR 0x0A] @ ''Detailed inspection:'' @ [CHR 0x0A]
         @ JSON_stringify pw (inspection_json inspection) (Some 2)))) s)"

definition getPageContent :: "'w playwright \<Rightarrow> (tool_result, 'w driver) eff" where
  "getPageContent pw = (\<lambda>s.
     if \<not> page s then throwE not_launched s
     else
       bindE (on_world (page_title pw)) (\<lambda>title.
       bindE (\<lambda>s. (Inr (page_url pw (world s)), s)) (\<lambda>url.
       bindE (on_world (page_content pw)) (\<lambda>content.
       returnE (text_result (''Page Title: '' @ title @ [CHR 0x0A] @ ''URL: '' @ url
         @ [CHR 0x0A] @ ''Content Length: '' @ string_of_nat (length content)
         @ '' characters''))))) s)"

subsection \<open>generate, close\<close>

text \<open>A log record as the script generator reads it: it has a \<^verbatim>\<open>code\<close> and neither
  \<^verbatim>\<open>name\<close> nor \<^verbatim>\<open>arguments\<close>.\<close>

definition logged :: "action \<Rightarrow> script_action" where
  "logged a = \<lparr>sa_code = Some (rec_code a), sa_name = None, sa_arguments = None\<rparr>"

definition generateTest ::
  "string \<Rightarrow> string option \<Rightarrow> script_action list option \<Rightarrow> (tool_result, 'w driver) eff" where
  "generateTest testName description_arg providedActions = (\<lambda>s.
     let description = (case description_arg of None \<Rightarrow> [] | Some d \<Rightarrow> d);
         actionsToUse = (case providedActions of None \<Rightarrow> map logged (actions s) | Some p \<Rightarrow> p);
         testCode = generatePlaywrightTest testName description actionsToUse
     in returnE (text_result testCode) s)"

definition closeBrowser :: "'w playwright \<Rightarrow> (tool_result, 'w driver) eff" where
  "closeBrowser pw = (\<lambda>s.
     if browser s then
       bindE (on_world (browser_close pw)) (\<lambda>_.
       bindE (modify (\<lambda>s. s\<lparr>browser := False\<rparr>)) (\<lambda>_.
       bindE (modify (\<lambda>s. s\<lparr>page := False\<rparr>)) (\<lambda>_.
       bindE (modify (\<lambda>s. s\<lparr>actions := []\<rparr>)) (\<lambda>_.
       returnE (text_result ''Browser closed successfully''))))) s
     else returnE (text_result ''No browser to close'') s)"

section \<open>The request router\<close>

text \<open>\<^verbatim>\<open>args.p\<close>: a \<^verbatim>\<open>TypeError\<close> when the payload is absent.\<close>

definition read_prop :: "tool_args option \<Rightarrow> string \<Rightarrow> (tool_args \<Rightarrow> 'a) \<Rightarrow> ('a, 's) eff" where
  "read_prop args p get = (case args of None \<Rightarrow> throwE (undefined_read p) | Some a \<Rightarrow> returnE (get a))"

text \<open>\<^verbatim>\<open>args?.p\<close> for an optional property.\<close>

definition opt_prop :: "tool_args option \<Rightarrow> (tool_args \<Rightarrow> 'a option) \<Rightarrow> 'a option" where
  "opt_prop args get = (case args of None \<Rightarrow> None | Some a \<Rightarrow> get a)"

text \<open>The \<^verbatim>\<open>switch\<close> inside the \<^verbatim>\<open>try\<close> block of the \<^verbatim>\<open>CallToolRequestSchema\<close> handler.\<close>

definition dispatch ::
  "'w playwright \<Rightarrow> string \<Rightarrow> tool_args option \<Rightarrow> (tool_result, 'w driver) eff" where
  "dispatch pw name args =
     (if name = ''launch_browser'' then
        launchBrowser pw (case opt_prop args arg_headless of None \<Rightarrow> False | Some h \<Rightarrow> h)
      else if name = ''navigate_to'' then
        bindE (read_prop args ''url'' arg_url) (\<lambda>url. navigateTo pw url)
      else if name = ''click_element'' then
        bindE (read_prop args ''selector'' arg_selector) (\<lambda>selector.
        bindE (read_prop args ''timeout'' arg_timeout) (\<lambda>timeout.
        clickElement pw selector timeout))
      else if name = ''fill_input'' then
        bindE (read_prop args ''selector'' arg_selector) (\<lambda>selector.
        bindE (read_prop args ''text'' arg_text) (\<lambda>text.
        fillInput pw selector text))
      else if name = ''wait_for_element'' then
        bindE (read_prop args ''selector'' arg_selector) (\<lambda>selector.
        bindE (read_prop args ''timeout'' arg_timeout) (\<lambda>timeout.
        waitForElement pw selector timeout))
      else if name = ''take_screenshot'' then
        takeScreenshot pw (opt_prop args arg_filename)
      else if name = ''github_search'' then
        bindE (read_prop args ''query'' arg_query) (\<lambda>query. githubSearch pw query)
      else if name = ''inspect_page'' then
        inspectPage pw (or_default (opt_prop args arg_elementType) ''all'')
      else if name = ''get_page_content'' then
        getPageContent pw
      else if name = ''generate_test'' then
        bindE (read_prop args ''testName'' arg_testName) (\<lambda>testName.
        bindE (read_prop args ''description'' arg_description) (\<lambda>description.
        bindE (read_prop args ''actions'' arg_actions) (\<lambda>providedActions.
        generateTest testName description providedActions)))
      else if name = ''close_browser'' then
        closeBrowser pw
      else throwE (''Unknown tool: '' @ name))"

text \<open>The \<^verbatim>\<open>CallToolRequestSchema\<close> handler: the \<^verbatim>\<open>catch\<close> turns every exception of the
  \<^verbatim>\<open>switch\<close> into a result.\<close>

definition callTool ::
  "'w playwright \<Rightarrow> string \<Rightarrow> tool_args option \<Rightarrow> 'w driver \<Rightarrow> tool_result \<times> 'w driver" where
  "callTool pw name args s =
     (case dispatch pw name args s of
        (Inr result, s') \<Rightarrow> (result, s')
      | (Inl error, s') \<Rightarrow> (text_result (''Error executing '' @ name @ '': '' @ error), s'))"

section \<open>The transport bridge\<close>

text \<open>
  \<^verbatim>\<open>sendMCPRequest\<close> of \<^verbatim>\<open>AIPlaywrightIntegration\<close>. A call that passes the connection
  check is known by the id of its request. The state holds what the call leaves behind:
  its promise, its timer and its \<^verbatim>\<open>data\<close> listener on the worker's standard output. The
  passing of time is not modelled: a timer that runs out is the event \<open>timer_fires\<close>,
  a chunk on standard output the event \<open>stdout_data\<close>.
\<close>

datatype 'r promise = Pending | Resolved 'r | Rejected string

text \<open>\<^verbatim>\<open>resolve\<close> and \<^verbatim>\<open>reject\<close> settle a pending promise and do nothing to a settled one.\<close>

definition settle :: "'r promise \<Rightarrow> 'r promise \<Rightarrow> 'r promise" where
  "settle outcome p = (case p of Pending \<Rightarrow> outcome | _ \<Rightarrow> p)"

record 'p request =
  req_id :: nat
  req_method :: string
  req_params :: 'p

text \<open>A chunk as \<^verbatim>\<open>onData\<close> sees it: \<open>Response\<close> when \<^verbatim>\<open>JSON.parse\<close> returns an
  object with a numeric \<^verbatim>\<open>id\<close> (with the message of its \<^verbatim>\<open>error\<close>, if it has one, and its
  \<^verbatim>\<open>result\<close>), \<open>Unreadable\<close> otherwise.\<close>

datatype 'r frame =
    Unreadable
  | Response (resp_id: nat) (resp_error: "string option") (resp_result: 'r)

text \<open>\<open>messageId\<close> counts the calls; \<open>listeners\<close> holds, in the order of registration, the
  id of the call behind each \<^verbatim>\<open>data\<close> listener; \<open>timers\<close> the running timers with their
  delay in milliseconds; \<open>stdin\<close> the requests written to the worker.\<close>

record ('p, 'r) bridge =
  isConnected :: bool
  messageId :: nat
  promises :: "nat \<rightharpoonup> 'r promise"
  timers :: "(nat \<times> int) list"
  listeners :: "nat list"
  stdin :: "'p request list"

definition AIPlaywrightIntegration :: "('p, 'r) bridge" where
  "AIPlaywrightIntegration =
     \<lparr>isConnected = False, messageId = 0, promises = Map.empty, timers = [],
      listeners = [], stdin = []\<rparr>"

text \<open>The \<^verbatim>\<open>stderr\<close> listener of \<^verbatim>\<open>startMCPServer\<close>.\<close>

definition stderr_data :: "string \<Rightarrow> ('p, 'r) bridge \<Rightarrow> ('p, 'r) bridge" where
  "stderr_data chunk b =
     (if str_includes chunk ''Playwright MCP server running'' then b\<lparr>isConnected := True\<rparr>
      else b)"

text \<open>\<open>Inl\<close>: the call throws at once. \<open>Inr id\<close>: the call with this id is under way.\<close>

definition sendMCPRequest ::
  "string \<Rightarrow> 'p \<Rightarrow> ('p, 'r) bridge \<Rightarrow> (string + nat) \<times> ('p, 'r) bridge" where
  "sendMCPRequest method params b =
     (if \<not> isConnected b then (Inl ''MCP server not connected'', b)
      else
        let b = b\<lparr>messageId := messageId b + 1\<rparr>;
            request = \<lparr>req_id = messageId b, req_method = method, req_params = params\<rparr>;
            b = b\<lparr>promises := (promises b)(req_id request \<mapsto> Pending)\<rparr>;
            b = b\<lparr>timers := timers b @ [(req_id request, 30000)]\<rparr>;
            b = b\<lparr>listeners := listeners b @ [req_id request]\<rparr>;
            b = b\<lparr>stdin := stdin b @ [request]\<rparr>
        in (Inr (req_id request), b))"

definition settle_call :: "nat \<Rightarrow> 'r promise \<Rightarrow> ('p, 'r) bridge \<Rightarrow> ('p, 'r) bridge" where
  "settle_call i outcome b =
     (case promises b i of
        None \<Rightarrow> b
      | Some p \<Rightarrow> b\<lparr>promises := (promises b)(i \<mapsto> settle outcome p)\<rparr>)"

text \<open>The timer callback of the call \<open>i\<close>, if the timer has not been cleared.\<close>

definition timer_fires :: "nat \<Rightarrow> ('p, 'r) bridge \<Rightarrow> ('p, 'r) bridge" where
  "timer_fires i b =
     (if i \<in> fst ` set (timers b) then
        settle_call i (Rejected ''MCP request timeout'')
          (b\<lparr>timers := filter (\<lambda>t. fst t \<noteq> i) (timers b)\<rparr>)
      else b)"

text \<open>\<^verbatim>\<open>onData\<close> of the call \<open>i\<close>.\<close>

definition onData :: "nat \<Rightarrow> 'r frame \<Rightarrow> ('p, 'r) bridge \<Rightarrow> ('p, 'r) bridge" where
  "onData i data b =
     (case data of
        Unreadable \<Rightarrow> b
      | Response rid err res \<Rightarrow>
          if rid = i then
            let b = b\<lparr>timers := filter (\<lambda>t. fst t \<noteq> i) (timers b)\<rparr>;
                b = b\<lparr>listeners := remove1 i (listeners b)\<rparr>
            in (case err of
                  Some message \<Rightarrow> settle_call i (Rejected message) b
                | None \<Rightarrow> settle_call i (Resolved res) b)
          else b)"

text \<open>A chunk arrives: every listener registered at that moment is called, in the order
  of registration.\<close>

definition stdout_data :: "'r frame \<Rightarrow> ('p, 'r) bridge \<Rightarrow> ('p, 'r) bridge" where
  "stdout_data data b = foldl (\<lambda>b i. onData i data b) b (listeners b)"

section \<open>Notions used in the statements\<close>




text \<open>The catalog of \<^verbatim>\<open>ListToolsRequestSchema\<close>, and the tools whose handler starts with the
  check of \<^verbatim>\<open>this.page\<close>.\<close>

definition tool_names :: "string list" where
  "tool_names =
     [''launch_browser'', ''navigate_to'', ''click_element'', ''fill_input'',
      ''wait_for_element'', ''take_screenshot'', ''get_page_content'', ''github_search'',
      ''inspect_page'', ''generate_test'', ''close_browser'']"

definition page_tools :: "string list" where
  "page_tools =
     [''navigate_to'', ''click_element'', ''fill_input'', ''wait_for_element'',
      ''take_screenshot'', ''get_page_content'', ''github_search'', ''inspect_page'']"

text \<open>Every candidate of the list, tried in this order, throws: \<open>Some\<close> of the state that the
  failed attempts leave behind, \<open>None\<close> as soon as one attempt succeeds.\<close>

fun all_fail :: "(string \<Rightarrow> ('a, 's) eff) \<Rightarrow> string list \<Rightarrow> 's \<Rightarrow> 's option" where
  "all_fail attempt [] s = Some s"
| "all_fail attempt (c # cs) s =
     (case attempt c s of (Inl e, s') \<Rightarrow> all_fail attempt cs s' | (Inr r, s') \<Rightarrow> None)"

text \<open>The common shape of the loops \<open>click_loop\<close> and \<open>fill_loop\<close>.\<close>

fun try_each ::
  "(string \<Rightarrow> ('a, 's) eff) \<Rightarrow> string list \<Rightarrow> string option \<Rightarrow> 's \<Rightarrow> ('a + string option) \<times> 's" where
  "try_each attempt [] lastError s = (Inr lastError, s)"
| "try_each attempt (c # cs) lastError s =
     (case attempt c s of
        (Inr result, s') \<Rightarrow> (Inl result, s')
      | (Inl error, s') \<Rightarrow> try_each attempt cs (Some error) s')"

text \<open>An operation that leaves the action log as it is, and one that extends the log when
  it returns and leaves it as it is when it throws.\<close>

definition keeps_log :: "('a, 'w driver) eff \<Rightarrow> bool" where
  "keeps_log m = (\<forall>s. actions (snd (m s)) = actions s)"

definition log_atomic :: "('a, 'w driver) eff \<Rightarrow> bool" where
  "log_atomic m =
     (\<forall>s. case m s of
            (Inl e, s') \<Rightarrow> actions s' = actions s
          | (Inr a, s') \<Rightarrow> prefix (actions s) (actions s'))"

text \<open>A page whose fields hold what \<^verbatim>\<open>fill\<close> writes into them.\<close>

definition reads_back :: "'w playwright \<Rightarrow> bool" where
  "reads_back pw =
     (\<forall>selector v w w'. page_fill pw selector v w = (Inr (), w')
        \<longrightarrow> page_inputValue pw selector w' = (Inr v, w'))"

text \<open>The messages of the errors that \<open>clickElement\<close> and \<open>fillInput\<close> raise after the last
  candidate has failed, by the outcome \<open>found\<close> of the inspection of the page.\<close>

definition click_failure :: "'w playwright \<Rightarrow> string \<Rightarrow> string list \<Rightarrow> string \<Rightarrow> string + json list \<Rightarrow> string" where
  "click_failure pw selector tried lastMessage found =
     ''Failed to click element '' @ selector @ '': '' @ lastMessage
       @ ''. Could not inspect available elements: ''
       @ (case found of
            Inr clickableElements \<Rightarrow>
              ''Failed to click element with any selector: '' @ join '', '' tried
                @ ''. Last error: '' @ lastMessage
                @ ''. Available clickable elements: ''
                @ JSON_stringify pw (JArr clickableElements) None
          | Inl evalError \<Rightarrow> evalError)"

definition fill_failure :: "'w playwright \<Rightarrow> string \<Rightarrow> string list \<Rightarrow> string \<Rightarrow> string + json list \<Rightarrow> string" where
  "fill_failure pw selector tried lastMessage found =
     ''Failed to fill input '' @ selector @ '': '' @ lastMessage
       @ ''. Could not inspect available inputs: ''
       @ (case found of
            Inr inputs \<Rightarrow>
              ''Failed to fill input with any selector: '' @ join '', '' tried
                @ ''. Last error: '' @ lastMessage
                @ ''. Available inputs: '' @ JSON_stringify pw (JArr inputs) None
          | Inl evalError \<Rightarrow> evalError)"

subsection \<open>A page for the examples\<close>

text \<open>A browser with one page: its address, the selectors that match a visible element, the
  values of its fields, and whether the page can be inspected. Waiting for a selector that
  matches nothing times out; everything else succeeds.\<close>

record fake_page =
  fp_url :: string
  fp_visible :: "string list"
  fp_values :: "string \<rightharpoonup> string"
  fp_inspectable :: bool

fun fake_stringify :: "json \<Rightarrow> string" where
  "fake_stringify JNull = ''null''"
| "fake_stringify (JBool b) = (if b then ''true'' else ''false'')"
| "fake_stringify (JNum n) = (if n < 0 then ''-'' else []) @ string_of_nat (nat \<bar>n\<bar>)"
| "fake_stringify (JStr s) = ''<'' @ s @ ''>''"
| "fake_stringify (JArr xs) = ''['' @ join '','' (map fake_stringify xs) @ '']''"
| "fake_stringify (JObj kvs) =
     ''{'' @ join '','' (map (\<lambda>kv. fst kv @ '':'' @ fake_stringify (snd kv)) kvs) @ ''}''"

definition fake :: "fake_page playwright" where
  "fake =
     \<lparr>chromium_launch = (\<lambda>headless. returnE ()),
      browser_newPage = returnE (),
      browser_close = returnE (),
      page_goto = (\<lambda>url w. (Inr (), w\<lparr>fp_url := url\<rparr>)),
      page_url = fp_url,
      page_title = returnE ''Fake'',
      page_content = returnE ''<html></html>'',
      page_waitForSelector = (\<lambda>selector options w.
        if selector \<in> set (fp_visible w) then (Inr (), w)
        else (Inl (''Timeout waiting for '' @ selector), w)),
      page_waitForTimeout = (\<lambda>ms. returnE ()),
      page_fill = (\<lambda>selector v w. (Inr (), w\<lparr>fp_values := (fp_values w)(selector \<mapsto> v)\<rparr>)),
      page_inputValue = (\<lambda>selector w.
        case fp_values w selector of
          None \<Rightarrow> (Inl (''No field '' @ selector), w)
        | Some v \<Rightarrow> (Inr v, w)),
      page_screenshot = (\<lambda>path. returnE ()),
      page_evalAll = (\<lambda>query callback w.
        if fp_inspectable w then (Inr (map JStr (fp_visible w)), w)
        else (Inl ''Execution context was destroyed'', w)),
      page_evaluate = (\<lambda>elementType w.
        (Inr \<lparr>insp_url = fp_url w, insp_title = ''Fake'', insp_forms = [], insp_inputs = [],
               insp_buttons = [], insp_links = []\<rparr>, w)),
      keyboard_press = (\<lambda>key. returnE ()),
      keyboard_type = (\<lambda>t. returnE ()),
      locator_isVisible = (\<lambda>selector w. (Inr (selector \<in> set (fp_visible w)), w)),
      locator_isEnabled = (\<lambda>selector. returnE True),
      locator_scrollIntoViewIfNeeded = (\<lambda>selector. returnE ()),
      locator_click = (\<lambda>selector. returnE ()),
      locator_fill = (\<lambda>selector v w. (Inr (), w\<lparr>fp_values := (fp_values w)(selector \<mapsto> v)\<rparr>)),
      locator_press = (\<lambda>selector key. returnE ()),
      JSON_stringify = (\<lambda>j indent. fake_stringify j),
      encodeURIComponent = Inr\<rparr>"

definition fake_page :: "string \<Rightarrow> string list \<Rightarrow> bool \<Rightarrow> fake_page" where
  "fake_page url visible inspectable =
     \<lparr>fp_url = url, fp_visible = visible, fp_values = Map.empty, fp_inspectable = inspectable\<rparr>"

definition fake_session :: "string \<Rightarrow> string list \<Rightarrow> bool \<Rightarrow> fake_page driver" where
  "fake_session url visible inspectable =
     \<lparr>browser = True, page = True, actions = [], world = fake_page url visible inspectable\<rparr>"

definition no_args :: tool_args where
  "no_args =
     \<lparr>arg_headless = None, arg_url = [], arg_selector = [], arg_timeout = None, arg_text = [],
      arg_filename = None, arg_query = [], arg_elementType = None, arg_testName = [],
      arg_description = None, arg_actions = None\<rparr>"

definition visited :: "action list" where
  "visited = [Navigate ''https://example.test/''
                (''await page.goto('' @ quoted ''https://example.test/'' @ '');'')]"

subsection \<open>Runs of the bridge\<close>

datatype ('p, 'r) event =
    Send string 'p
  | Data "'r frame"
  | Timer nat
  | Stderr string

fun step :: "('p, 'r) event \<Rightarrow> ('p, 'r) bridge \<Rightarrow> ('p, 'r) bridge" where
  "step (Send method params) b = snd (sendMCPRequest method params b)"
| "step (Data d) b = stdout_data d b"
| "step (Timer i) b = timer_fires i b"
| "step (Stderr chunk) b = stderr_data chunk b"


text \<open>The bridge after the worker has announced itself on its diagnostic stream.\<close>

definition connected :: "('p, 'r) bridge" where
  "connected = stderr_data ''Playwright MCP server running on stdio'' AIPlaywrightIntegration"


section \<open>Script generation\<close>

lemma foldl_action_line:
  "foldl (\<lambda>code action. code @ action_line action) acc acts
     = acc @ concat (map action_line acts)"
  by (induction acts arbitrary: acc) simp_all

text \<open>The script is the header, the lines of the actions in the order of the list, and
  the closing line.\<close>

lemma generatePlaywrightTest_lines:
  "generatePlaywrightTest testName description acts
     = ''import { test, expect } from '' @ quoted ''@playwright/test'' @ '';''
       @ [CHR 0x0A, CHR 0x0A]
       @ ''test('' @ quoted (if description = [] then testName else description)
       @ '', async ({ page }) => {'' @ [CHR 0x0A]
       @ concat (map action_line acts) @ ''});'' @ [CHR 0x0A]"
  by (simp add: generatePlaywrightTest_def foldl_action_line)



section \<open>Effects and the action log\<close>

lemma keeps_logI: "(\<And>s r s'. m s = (r, s') \<Longrightarrow> actions s' = actions s) \<Longrightarrow> keeps_log m"
  unfolding keeps_log_def by (metis prod.collapse)

lemma keeps_logD: "keeps_log m \<Longrightarrow> m s = (r, s') \<Longrightarrow> actions s' = actions s"
  by (metis keeps_log_def snd_conv)

lemma log_atomicI:
  assumes "\<And>s e s'. m s = (Inl e, s') \<Longrightarrow> actions s' = actions s"
    and "\<And>s a s'. m s = (Inr a, s') \<Longrightarrow> prefix (actions s) (actions s')"
  shows "log_atomic m"
  unfolding log_atomic_def using assms by (auto split: prod.splits sum.splits)

lemma log_atomic_Inl: "log_atomic m \<Longrightarrow> m s = (Inl e, s') \<Longrightarrow> actions s' = actions s"
  unfolding log_atomic_def by (erule allE [of _ s]) simp

lemma log_atomic_Inr: "log_atomic m \<Longrightarrow> m s = (Inr a, s') \<Longrightarrow> prefix (actions s) (actions s')"
  unfolding log_atomic_def by (erule allE [of _ s]) simp

lemma bindE_Inl:
  assumes "bindE m f s = (Inl e, s')"
  obtains "m s = (Inl e, s')" | a s1 where "m s = (Inr a, s1)" "f a s1 = (Inl e, s')"
  using assms by (auto simp: bindE_def split: prod.splits sum.splits)

lemma bindE_Inr:
  assumes "bindE m f s = (Inr b, s')"
  obtains a s1 where "m s = (Inr a, s1)" "f a s1 = (Inr b, s')"
  using assms by (auto simp: bindE_def split: prod.splits sum.splits)

lemma bindE_result:
  assumes "bindE m f s = (r, s')"
  obtains e where "m s = (Inl e, s')" "r = Inl e"
  | a s1 where "m s = (Inr a, s1)" "f a s1 = (r, s')"
  using assms by (auto simp: bindE_def split: prod.splits sum.splits)

lemma catchE_result:
  assumes "catchE m h s = (r, s')"
  obtains a where "m s = (Inr a, s')" "r = Inr a"
  | e s1 where "m s = (Inl e, s1)" "h e s1 = (r, s')"
  using assms by (auto simp: catchE_def split: prod.splits sum.splits)

lemma keeps_on_world: "keeps_log (on_world m)"
  by (simp add: keeps_log_def on_world_def split: prod.splits)

lemma keeps_returnE: "keeps_log (returnE a)"
  by (simp add: keeps_log_def returnE_def)

lemma keeps_throwE: "keeps_log (throwE e)"
  by (simp add: keeps_log_def throwE_def)

lemma keeps_bindE:
  assumes "keeps_log m" and "\<And>a. keeps_log (f a)"
  shows "keeps_log (bindE m f)"
proof (rule keeps_logI)
  fix s r s'
  assume "bindE m f s = (r, s')"
  then show "actions s' = actions s"
  proof (cases rule: bindE_result)
    case (1 e)
    with assms(1) show ?thesis by (simp add: keeps_logD)
  next
    case (2 a s1)
    with assms show ?thesis by (metis keeps_logD)
  qed
qed

lemma keeps_catchE:
  assumes "keeps_log m" and "\<And>e. keeps_log (h e)"
  shows "keeps_log (catchE m h)"
proof (rule keeps_logI)
  fix s r s'
  assume "catchE m h s = (r, s')"
  then show "actions s' = actions s"
  proof (cases rule: catchE_result)
    case (1 a)
    with assms(1) show ?thesis by (simp add: keeps_logD)
  next
    case (2 e s1)
    with assms show ?thesis by (metis keeps_logD)
  qed
qed

lemma keeps_message_of: "keeps_log (message_of e)"
  by (simp add: message_of_def keeps_throwE keeps_returnE split: option.splits)

lemma keeps_read_prop: "keeps_log (read_prop args p get)"
  by (simp add: read_prop_def keeps_throwE keeps_returnE split: option.splits)

lemma keeps_page_url: "keeps_log (\<lambda>s. (Inr (page_url pw (world s)), s))"
  by (simp add: keeps_log_def)

lemmas keeps_intros =
  keeps_on_world keeps_returnE keeps_throwE keeps_bindE keeps_catchE keeps_message_of
  keeps_read_prop keeps_page_url

lemma atomic_keeps: "keeps_log m \<Longrightarrow> log_atomic m"
  by (rule log_atomicI) (simp_all add: keeps_logD)

lemma atomic_bindE:
  assumes "keeps_log m" and "\<And>a. log_atomic (f a)"
  shows "log_atomic (bindE m f)"
proof (rule log_atomicI)
  fix s e s'
  assume "bindE m f s = (Inl e, s')"
  then show "actions s' = actions s"
  proof (cases rule: bindE_Inl)
    case 1
    with assms(1) show ?thesis by (simp add: keeps_logD)
  next
    case (2 a s1)
    with assms show ?thesis by (metis keeps_logD log_atomic_Inl)
  qed
next
  fix s b s'
  assume "bindE m f s = (Inr b, s')"
  then show "prefix (actions s) (actions s')"
  proof (cases rule: bindE_Inr)
    case (1 a s1)
    with assms show ?thesis by (metis keeps_logD log_atomic_Inr)
  qed
qed

lemma atomic_catchE:
  assumes "log_atomic m" and "\<And>e. keeps_log (h e)"
  shows "log_atomic (catchE m h)"
proof (rule log_atomicI)
  fix s e s'
  assume "catchE m h s = (Inl e, s')"
  then show "actions s' = actions s"
  proof (cases rule: catchE_result)
    case (1 a)
    then show ?thesis by simp
  next
    case (2 e1 s1)
    with assms show ?thesis by (metis keeps_logD log_atomic_Inl)
  qed
next
  fix s b s'
  assume "catchE m h s = (Inr b, s')"
  then show "prefix (actions s) (actions s')"
  proof (cases rule: catchE_result)
    case (1 a)
    with assms(1) show ?thesis by (simp add: log_atomic_Inr)
  next
    case (2 e1 s1)
    with assms show ?thesis by (metis keeps_logD log_atomic_Inl prefix_order.order_refl)
  qed
qed

lemma atomic_push_return: "log_atomic (bindE (push a) (\<lambda>_. returnE r))"
  by (rule log_atomicI) (simp_all add: bindE_def push_def modify_def returnE_def)

lemma atomic_throwE: "log_atomic (throwE e)"
  by (simp add: atomic_keeps keeps_throwE)

lemma atomic_if: "log_atomic m \<Longrightarrow> log_atomic n \<Longrightarrow> log_atomic (if b then m else n)"
  by simp

lemma atomic_guard:
  assumes "log_atomic m"
  shows "log_atomic (\<lambda>s. if \<not> page s then throwE e s else m s)"
  using assms by (simp add: log_atomic_def throwE_def)

lemma keeps_guard:
  assumes "keeps_log m"
  shows "keeps_log (\<lambda>s. if \<not> page s then throwE e s else m s)"
  using assms by (simp add: keeps_log_def throwE_def)

lemmas fake_simps =
  fake_def fake_page_def fake_session_def bindE_def returnE_def throwE_def catchE_def on_world_def
  push_def modify_def PlaywrightMCPServer_def

section \<open>Selector resolution\<close>

lemma atomic_click_attempt: "log_atomic (click_attempt pw timeout c)"
  unfolding click_attempt_def
  by (intro atomic_bindE keeps_intros) (simp add: atomic_throwE atomic_bindE atomic_push_return keeps_intros)

lemma atomic_fill_attempt: "log_atomic (fill_attempt pw text c)"
  unfolding fill_attempt_def
  by (intro atomic_bindE keeps_intros) (simp add: atomic_throwE atomic_bindE atomic_push_return keeps_intros)

lemma click_loop_try_each:
  "click_loop pw timeout cs lastError s = try_each (click_attempt pw timeout) cs lastError s"
  by (induction cs arbitrary: lastError s) (auto split: prod.splits sum.splits)

lemma fill_loop_try_each:
  "fill_loop pw text cs lastError s = try_each (fill_attempt pw text) cs lastError s"
  by (induction cs arbitrary: lastError s) (auto split: prod.splits sum.splits)

lemma try_each_Inl:
  "try_each attempt cs lastError s = (Inl r, s2) \<longleftrightarrow>
     (\<exists>pre c post s1. cs = pre @ c # post \<and> all_fail attempt pre s = Some s1
        \<and> attempt c s1 = (Inr r, s2))"
proof (induction cs arbitrary: lastError s)
  case Nil
  then show ?case by simp
next
  case (Cons x xs)
  obtain r1 s1 where a: "attempt x s = (r1, s1)" by (cases "attempt x s")
  show ?case
  proof (cases r1)
    case (Inr res)
    have "(\<exists>pre c post s1. x # xs = pre @ c # post \<and> all_fail attempt pre s = Some s1
        \<and> attempt c s1 = (Inr r, s2)) \<longleftrightarrow> (res = r \<and> s1 = s2)"
    proof
      assume "\<exists>pre c post s1. x # xs = pre @ c # post \<and> all_fail attempt pre s = Some s1
        \<and> attempt c s1 = (Inr r, s2)"
      then obtain pre c post s1' where h: "x # xs = pre @ c # post"
        "all_fail attempt pre s = Some s1'" "attempt c s1' = (Inr r, s2)" by blast
      show "res = r \<and> s1 = s2"
      proof (cases pre)
        case Nil
        with h a Inr show ?thesis by simp
      next
        case (Cons p ps)
        with h a Inr show ?thesis by simp
      qed
    next
      assume "res = r \<and> s1 = s2"
      with a Inr have "x # xs = [] @ x # xs \<and> all_fail attempt [] s = Some s
        \<and> attempt x s = (Inr r, s2)" by simp
      then show "\<exists>pre c post s1. x # xs = pre @ c # post \<and> all_fail attempt pre s = Some s1
        \<and> attempt c s1 = (Inr r, s2)" by blast
    qed
    with a Inr show ?thesis by simp
  next
    case (Inl e)
    have "(\<exists>pre c post s1'. x # xs = pre @ c # post \<and> all_fail attempt pre s = Some s1'
        \<and> attempt c s1' = (Inr r, s2)) \<longleftrightarrow>
        (\<exists>pre c post s1'. xs = pre @ c # post \<and> all_fail attempt pre s1 = Some s1'
        \<and> attempt c s1' = (Inr r, s2))" (is "?L \<longleftrightarrow> ?R")
    proof
      assume ?L
      then obtain pre c post s1' where h: "x # xs = pre @ c # post"
        "all_fail attempt pre s = Some s1'" "attempt c s1' = (Inr r, s2)" by blast
      show ?R
      proof (cases pre)
        case Nil
        with h a Inl show ?thesis by simp
      next
        case (Cons p ps)
        with h a Inl have "xs = ps @ c # post \<and> all_fail attempt ps s1 = Some s1'
          \<and> attempt c s1' = (Inr r, s2)" by simp
        then show ?thesis by blast
      qed
    next
      assume ?R
      then obtain pre c post s1' where h: "xs = pre @ c # post"
        "all_fail attempt pre s1 = Some s1'" "attempt c s1' = (Inr r, s2)" by blast
      with a Inl have "x # xs = (x # pre) @ c # post \<and> all_fail attempt (x # pre) s = Some s1'
        \<and> attempt c s1' = (Inr r, s2)" by simp
      then show ?L by blast
    qed
    with a Inl Cons.IH [of "Some e" s1] show ?thesis by simp
  qed
qed

lemma try_each_Inr:
  "try_each attempt (pre @ [c]) lastError s = (Inr e, s2) \<longleftrightarrow>
     (\<exists>s1 last. all_fail attempt pre s = Some s1 \<and> attempt c s1 = (Inl last, s2)
        \<and> e = Some last)"
proof (induction pre arbitrary: lastError s)
  case Nil
  show ?case by (cases "attempt c s") (auto split: sum.splits)
next
  case (Cons x xs)
  obtain r1 s1 where a: "attempt x s = (r1, s1)" by (cases "attempt x s")
  show ?case
  proof (cases r1)
    case (Inl err)
    with a Cons.IH [of "Some err" s1] show ?thesis by simp
  next
    case (Inr res)
    with a show ?thesis by simp
  qed
qed

lemma try_each_log:
  assumes "\<And>c. log_atomic (attempt c)"
  shows "try_each attempt cs lastError s = (r, s') \<Longrightarrow>
     (case r of Inl result \<Rightarrow> prefix (actions s) (actions s') | Inr e \<Rightarrow> actions s' = actions s)"
proof (induction cs arbitrary: lastError s)
  case Nil
  then show ?case by auto
next
  case (Cons c cs)
  obtain r1 s1 where a: "attempt c s = (r1, s1)" by (cases "attempt c s")
  have atomic: "log_atomic (attempt c)" by (rule assms)
  show ?case
  proof (cases r1)
    case (Inl e)
    with a have "attempt c s = (Inl e, s1)" by simp
    with atomic have same: "actions s1 = actions s" by (rule log_atomic_Inl)
    from Cons.prems a Inl have "try_each attempt cs (Some e) s1 = (r, s')" by simp
    then have "case r of Inl result \<Rightarrow> prefix (actions s1) (actions s')
      | Inr e \<Rightarrow> actions s' = actions s1" by (rule Cons.IH)
    with same show ?thesis by (cases r) simp_all
  next
    case (Inr res)
    with a have "attempt c s = (Inr res, s1)" by simp
    with atomic have "prefix (actions s) (actions s1)" by (rule log_atomic_Inr)
    moreover from Cons.prems a Inr have "r = Inl res" and "s' = s1" by simp_all
    ultimately show ?thesis by simp
  qed
qed

lemma all_fail_log:
  assumes "\<And>c. log_atomic (attempt c)"
  shows "all_fail attempt cs s = Some s1 \<Longrightarrow> actions s1 = actions s"
proof (induction cs arbitrary: s)
  case Nil
  then show ?case by simp
next
  case (Cons x xs)
  obtain r1 s' where a: "attempt x s = (r1, s')" by (cases "attempt x s")
  show ?case
  proof (cases r1)
    case (Inl err)
    with a Cons.prems have "all_fail attempt xs s' = Some s1" by simp
    then have "actions s1 = actions s'" by (rule Cons.IH)
    moreover have "actions s' = actions s" using assms a Inl by (metis log_atomic_Inl)
    ultimately show ?thesis by simp
  next
    case (Inr res)
    with a Cons.prems show ?thesis by simp
  qed
qed


lemma fill_attempt_success:
  assumes "fill_attempt pw text c s1 = (Inr r, s2)"
  shows "\<exists>w1 w2 w3 w4 filledValue.
      page_waitForSelector pw c \<lparr>opt_timeout = 5000, opt_state = Some ''visible''\<rparr> (world s1)
        = (Inr (), w1)
    \<and> locator_isVisible pw c w1 = (Inr True, w2)
    \<and> page_fill pw c [] w2 = (Inr (), w3)
    \<and> page_fill pw c text w3 = (Inr (), w4)
    \<and> page_inputValue pw c w4 = (Inr filledValue, world s2)
    \<and> actions s2 = actions s1 @ [Fill c text filledValue
         (''await page.fill('' @ quoted c @ '', '' @ quoted text @ '');'')]
    \<and> r = text_result (''Successfully filled input '' @ c @ '' with: '' @ text
              @ '' (actual value: '' @ filledValue @ '')'')
    \<and> browser s2 = browser s1 \<and> page s2 = page s1"
  using assms
  by (auto simp: fill_attempt_def bindE_def on_world_def push_def modify_def returnE_def throwE_def
        split: prod.splits sum.splits if_splits)

lemma click_exhausted_result:
  "click_exhausted pw selector tried (Some lastMessage) s =
     (case page_evalAll pw clickable_query ClickableInfo (world s) of
        (Inr clickableElements, w') \<Rightarrow>
          (Inl (''Failed to click element '' @ selector @ '': '' @ lastMessage
                @ ''. Could not inspect available elements: ''
                @ ''Failed to click element with any selector: '' @ join '', '' tried
                @ ''. Last error: '' @ lastMessage
                @ ''. Available clickable elements: ''
                @ JSON_stringify pw (JArr clickableElements) None), s\<lparr>world := w'\<rparr>)
      | (Inl evalError, w') \<Rightarrow>
          (Inl (''Failed to click element '' @ selector @ '': '' @ lastMessage
                @ ''. Could not inspect available elements: '' @ evalError), s\<lparr>world := w'\<rparr>))"
  by (simp add: click_exhausted_def catchE_def bindE_def on_world_def message_of_def returnE_def
        throwE_def split: prod.splits sum.splits)

lemma fill_exhausted_result:
  "fill_exhausted pw selector tried (Some lastMessage) s =
     (case page_evalAll pw ''input, textarea, select'' InputInfo (world s) of
        (Inr inputs, w') \<Rightarrow>
          (Inl (''Failed to fill input '' @ selector @ '': '' @ lastMessage
                @ ''. Could not inspect available inputs: ''
                @ ''Failed to fill input with any selector: '' @ join '', '' tried
                @ ''. Last error: '' @ lastMessage
                @ ''. Available inputs: '' @ JSON_stringify pw (JArr inputs) None),
           s\<lparr>world := w'\<rparr>)
      | (Inl evalError, w') \<Rightarrow>
          (Inl (''Failed to fill input '' @ selector @ '': '' @ lastMessage
                @ ''. Could not inspect available inputs: '' @ evalError), s\<lparr>world := w'\<rparr>))"
  by (simp add: fill_exhausted_def catchE_def bindE_def on_world_def message_of_def returnE_def
        throwE_def split: prod.splits sum.splits)


lemma fill_exhausted_throws: "fill_exhausted pw selector tried lastError s \<noteq> (Inr r, s')"
  by (auto simp: fill_exhausted_def catchE_def bindE_def on_world_def message_of_def returnE_def
        throwE_def split: prod.splits sum.splits option.splits)


lemma fillInput_Inr:
  assumes "page s"
  shows "fillInput pw selector text s = (Inr r, s') \<longleftrightarrow>
    try_each (fill_attempt pw text)
      (fill_selectorsToTry (page_url pw (world s)) selector) None s = (Inl r, s')"
  using assms
  by (auto simp: fillInput_def Let_def fill_loop_try_each fill_exhausted_throws
        split: prod.splits sum.splits)

lemmas run_simps =
  dispatch_def read_prop_def opt_prop_def no_args_def
  clickElement_def click_selectorsToTry_def github_click_selectors_def click_attempt_def
  click_exhausted_def clickable_query_def
  fillInput_def fill_selectorsToTry_def github_fill_selectors_def google_fill_selectors_def
  fill_attempt_def fill_exhausted_def message_of_def
  fake_simps



text \<open>Claim C8. When a fill returns, it has written the text into the field of some candidate
  \<open>c\<close> and then read the value of that field, and the record added to the log holds the
  value read; on a page whose fields hold what is written into them, that value is the
  text.\<close>

theorem fill_records_read_back:
  assumes "page s" and "fillInput pw selector text s = (Inr r, s')"
  shows "(\<exists>c w3 w4 filledValue.
            c \<in> set (fill_selectorsToTry (page_url pw (world s)) selector)
          \<and> page_fill pw c text w3 = (Inr (), w4)
          \<and> page_inputValue pw c w4 = (Inr filledValue, world s')
          \<and> actions s' = actions s @ [Fill c text filledValue
               (''await page.fill('' @ quoted c @ '', '' @ quoted text @ '');'')])
       \<and> (reads_back pw \<longrightarrow>
            (\<exists>c. actions s' = actions s @ [Fill c text text
               (''await page.fill('' @ quoted c @ '', '' @ quoted text @ '');'')]))"
proof -
  let ?cands = "fill_selectorsToTry (page_url pw (world s)) selector"
  have atomic: "\<And>c. log_atomic (fill_attempt pw text c)" by (rule atomic_fill_attempt)
  from assms obtain pre c post s1 where h: "?cands = pre @ c # post"
      "all_fail (fill_attempt pw text) pre s = Some s1" "fill_attempt pw text c s1 = (Inr r, s')"
    by (auto simp: fillInput_Inr try_each_Inl)
  from atomic h(2) have log: "actions s1 = actions s" by (rule all_fail_log)
  from fill_attempt_success [OF h(3)] obtain w3 w4 filledValue where
    f: "page_fill pw c text w3 = (Inr (), w4)"
       "page_inputValue pw c w4 = (Inr filledValue, world s')"
       "actions s' = actions s1 @ [Fill c text filledValue
               (''await page.fill('' @ quoted c @ '', '' @ quoted text @ '');'')]"
    by blast
  have c: "c \<in> set ?cands" using h(1) by simp
  have first: "\<exists>c w3 w4 filledValue. c \<in> set ?cands
          \<and> page_fill pw c text w3 = (Inr (), w4)
          \<and> page_inputValue pw c w4 = (Inr filledValue, world s')
          \<and> actions s' = actions s @ [Fill c text filledValue
               (''await page.fill('' @ quoted c @ '', '' @ quoted text @ '');'')]"
    using c f log by auto
  have second: "reads_back pw \<longrightarrow> (\<exists>c. actions s' = actions s @ [Fill c text text
               (''await page.fill('' @ quoted c @ '', '' @ quoted text @ '');'')])"
  proof
    assume "reads_back pw"
    with f(1) have "page_inputValue pw c w4 = (Inr text, w4)" by (simp add: reads_back_def)
    with f(2) have "filledValue = text" by simp
    with f(3) log show "\<exists>c. actions s' = actions s @ [Fill c text text
               (''await page.fill('' @ quoted c @ '', '' @ quoted text @ '');'')]" by auto
  qed
  from first second show ?thesis by blast
qed

lemma reads_back_fake: "reads_back fake"
  by (simp add: reads_back_def fake_def)

text \<open>Filling \<^verbatim>\<open>quux\<close> into the field \<^verbatim>\<open>#name\<close>.\<close>

theorem fill_records_read_back_witness:
  "page (fake_session ''https://example.test/form'' [''#name''] True)
   \<and> fillInput fake ''#name'' ''quux'' (fake_session ''https://example.test/form'' [''#name''] True)
       = (Inr (text_result ''Successfully filled input #name with: quux (actual value: quux)''),
          \<lparr>browser = True, page = True,
           actions = [Fill ''#name'' ''quux'' ''quux''
                        (''await page.fill('' @ quoted ''#name'' @ '', '' @ quoted ''quux'' @ '');'')],
           world = (fake_page ''https://example.test/form'' [''#name''] True)
                     \<lparr>fp_values := [''#name'' \<mapsto> ''quux'']\<rparr>\<rparr>)
   \<and> reads_back fake
   \<and> (\<exists>c. actions \<lparr>browser = True, page = True,
           actions = [Fill ''#name'' ''quux'' ''quux''
                        (''await page.fill('' @ quoted ''#name'' @ '', '' @ quoted ''quux'' @ '');'')],
           world = (fake_page ''https://example.test/form'' [''#name''] True)
                     \<lparr>fp_values := [''#name'' \<mapsto> ''quux'']\<rparr>\<rparr>
          = actions (fake_session ''https://example.test/form'' [''#name''] True)
            @ [Fill c ''quux'' ''quux''
                (''await page.fill('' @ quoted c @ '', '' @ quoted ''quux'' @ '');'')])"
proof -
  let ?s = "fake_session ''https://example.test/form'' [''#name''] True"
  let ?s' = "\<lparr>browser = True, page = True,
           actions = [Fill ''#name'' ''quux'' ''quux''
                        (''await page.fill('' @ quoted ''#name'' @ '', '' @ quoted ''quux'' @ '');'')],
           world = (fake_page ''https://example.test/form'' [''#name''] True)
                     \<lparr>fp_values := [''#name'' \<mapsto> ''quux'']\<rparr>\<rparr>"
  have p: "page ?s" by (simp add: fake_session_def)
  have run: "fillInput fake ''#name'' ''quux'' ?s
       = (Inr (text_result ''Successfully filled input #name with: quux (actual value: quux)''), ?s')"
    by (simp add: run_simps)
  from fill_records_read_back [OF p run] reads_back_fake
  have "\<exists>c. actions ?s' = actions ?s @ [Fill c ''quux'' ''quux''
                (''await page.fill('' @ quoted c @ '', '' @ quoted ''quux'' @ '');'')]"
    by blast
  with p run reads_back_fake show ?thesis by blast
qed

section \<open>Resolution exhaustion\<close>

lemma str_includes_here: "str_includes (x @ b) x"
proof (cases "x @ b")
  case Nil
  then show ?thesis by simp
next
  case (Cons c cs)
  have "prefix x (x @ b)" by simp
  with Cons show ?thesis by simp
qed

lemma str_includes_append: "str_includes (a @ x @ b) x"
  by (induction a) (simp_all add: str_includes_here)

lemma str_includes_appendI: "s = a @ x @ b \<Longrightarrow> str_includes s x"
  by (simp add: str_includes_append)

lemma str_includes_skip: "str_includes s x \<Longrightarrow> str_includes (a @ s) x"
  by (induction a) simp_all

lemma str_includes_iff: "str_includes s x \<longleftrightarrow> (\<exists>a b. s = a @ x @ b)"
proof
  show "str_includes s x \<Longrightarrow> \<exists>a b. s = a @ x @ b"
  proof (induction s)
    case Nil
    then show ?case by simp
  next
    case (Cons c cs)
    from Cons.prems have "prefix x (c # cs) \<or> str_includes cs x" by simp
    then show ?case
    proof
      assume "prefix x (c # cs)"
      then obtain b where "c # cs = x @ b" by (auto simp: prefix_def)
      then have "c # cs = [] @ x @ b" by simp
      then show ?thesis by blast
    next
      assume "str_includes cs x"
      then obtain a b where "cs = a @ x @ b" using Cons.IH by blast
      then have "c # cs = (c # a) @ x @ b" by simp
      then show ?thesis by blast
    qed
  qed
next
  show "\<exists>a b. s = a @ x @ b \<Longrightarrow> str_includes s x"
    by (auto simp: str_includes_append)
qed

lemma str_includes_mid: "str_includes s x \<Longrightarrow> str_includes (a @ s @ b) x"
  by (auto simp: str_includes_iff) (metis append.assoc)

lemma join_includes: "c \<in> set xs \<Longrightarrow> str_includes (join sep xs) c"
proof (induction sep xs rule: join.induct)
  case (1 sep)
  then show ?case by simp
next
  case (2 sep x)
  then show ?case using str_includes_append [of "[]" c "[]"] by simp
next
  case (3 sep x y ys)
  show ?case
  proof (cases "c = x")
    case True
    then show ?thesis using str_includes_append [of "[]" x] by simp
  next
    case False
    with 3 have "str_includes (join sep (y # ys)) c" by simp
    then have "str_includes ((x @ sep) @ join sep (y # ys)) c" by (rule str_includes_skip)
    then show ?thesis by simp
  qed
qed

lemma clickElement_exhausted:
  assumes "page s"
    and "click_selectorsToTry (page_url pw (world s)) selector = pre @ [c]"
    and "all_fail (click_attempt pw (case timeout_arg of None \<Rightarrow> 30000 | Some t \<Rightarrow> t)) pre s = Some s0"
    and "click_attempt pw (case timeout_arg of None \<Rightarrow> 30000 | Some t \<Rightarrow> t) c s0 = (Inl lastMessage, s1)"
  shows "clickElement pw selector timeout_arg s
    = click_exhausted pw selector (pre @ [c]) (Some lastMessage) s1"
proof -
  let ?t = "case timeout_arg of None \<Rightarrow> 30000 | Some t \<Rightarrow> t"
  have "try_each (click_attempt pw ?t) (pre @ [c]) None s = (Inr (Some lastMessage), s1)"
    using assms(3,4) by (simp add: try_each_Inr)
  then show ?thesis using assms(1,2)
    by (simp add: clickElement_def Let_def click_loop_try_each)
qed

lemma fillInput_exhausted:
  assumes "page s"
    and "fill_selectorsToTry (page_url pw (world s)) selector = pre @ [c]"
    and "all_fail (fill_attempt pw text) pre s = Some s0"
    and "fill_attempt pw text c s0 = (Inl lastMessage, s1)"
  shows "fillInput pw selector text s
    = fill_exhausted pw selector (pre @ [c]) (Some lastMessage) s1"
proof -
  have "try_each (fill_attempt pw text) (pre @ [c]) None s = (Inr (Some lastMessage), s1)"
    using assms(3,4) by (simp add: try_each_Inr)
  then show ?thesis using assms(1,2)
    by (simp add: fillInput_def Let_def fill_loop_try_each)
qed

lemma click_selectorsToTry_last:
  "click_selectorsToTry url selector = butlast (click_selectorsToTry url selector) @ [selector]"
  by (simp add: click_selectorsToTry_def)

lemma fill_selectorsToTry_last:
  "fill_selectorsToTry url selector = butlast (fill_selectorsToTry url selector) @ [selector]"
  by (simp add: fill_selectorsToTry_def)

lemma click_failure_contents:
  "str_includes (click_failure pw selector tried lastMessage found) lastMessage"
  "c \<in> set tried \<Longrightarrow> str_includes (click_failure pw selector tried lastMessage (Inr els)) c"
  "str_includes (click_failure pw selector tried lastMessage (Inr els))
     (JSON_stringify pw (JArr els) None)"
  "str_includes (click_failure pw selector tried lastMessage (Inl evalError)) evalError"
proof -
  show "str_includes (click_failure pw selector tried lastMessage found) lastMessage"
    unfolding click_failure_def
    by (rule str_includes_appendI [where a = "''Failed to click element '' @ selector @ '': ''"]) simp
  show "str_includes (click_failure pw selector tried lastMessage (Inr els))
     (JSON_stringify pw (JArr els) None)"
    unfolding click_failure_def
    by (rule str_includes_appendI [where b = "[]"]) simp
  show "str_includes (click_failure pw selector tried lastMessage (Inl evalError)) evalError"
    unfolding click_failure_def
    by (rule str_includes_appendI [where b = "[]"]) simp
  assume "c \<in> set tried"
  then have "str_includes (join '', '' tried) c" by (rule join_includes)
  then have "str_includes
     ((''Failed to click element '' @ selector @ '': '' @ lastMessage
       @ ''. Could not inspect available elements: ''
       @ ''Failed to click element with any selector: '') @ join '', '' tried
       @ (''. Last error: '' @ lastMessage @ ''. Available clickable elements: ''
          @ JSON_stringify pw (JArr els) None)) c"
    by (rule str_includes_mid)
  then show "str_includes (click_failure pw selector tried lastMessage (Inr els)) c"
    by (simp add: click_failure_def)
qed

lemma fill_failure_contents:
  "str_includes (fill_failure pw selector tried lastMessage found) lastMessage"
  "c \<in> set tried \<Longrightarrow> str_includes (fill_failure pw selector tried lastMessage (Inr els)) c"
  "str_includes (fill_failure pw selector tried lastMessage (Inr els))
     (JSON_stringify pw (JArr els) None)"
  "str_includes (fill_failure pw selector tried lastMessage (Inl evalError)) evalError"
proof -
  show "str_includes (fill_failure pw selector tried lastMessage found) lastMessage"
    unfolding fill_failure_def
    by (rule str_includes_appendI [where a = "''Failed to fill input '' @ selector @ '': ''"]) simp
  show "str_includes (fill_failure pw selector tried lastMessage (Inr els))
     (JSON_stringify pw (JArr els) None)"
    unfolding fill_failure_def
    by (rule str_includes_appendI [where b = "[]"]) simp
  show "str_includes (fill_failure pw selector tried lastMessage (Inl evalError)) evalError"
    unfolding fill_failure_def
    by (rule str_includes_appendI [where b = "[]"]) simp
  assume "c \<in> set tried"
  then have "str_includes (join '', '' tried) c" by (rule join_includes)
  then have "str_includes
     ((''Failed to fill input '' @ selector @ '': '' @ lastMessage
       @ ''. Could not inspect available inputs: ''
       @ ''Failed to fill input with any selector: '') @ join '', '' tried
       @ (''. Last error: '' @ lastMessage @ ''. Available inputs: ''
          @ JSON_stringify pw (JArr els) None)) c"
    by (rule str_includes_mid)
  then show "str_includes (fill_failure pw selector tried lastMessage (Inr els)) c"
    by (simp add: fill_failure_def)
qed

text \<open>Claim C7. With a page open, when every candidate has failed (the site selectors, then
  the caller's selector with the message \<open>lastMessage\<close>), click and fill inspect the page
  and raise one error. Its message contains \<open>lastMessage\<close>; when the inspection returns the
  elements, it contains every selector tried and the serialised descriptions of the
  elements; when the inspection fails, it contains the message of that failure beside
  \<open>lastMessage\<close>. In both cases the message starts as \<open>click_failure\<close> and
  \<open>fill_failure\<close> say: the aggregated message is carried inside the combined one.\<close>

theorem exhaustion_error:
  assumes "page s"
  shows
   "(all_fail (click_attempt pw (case timeout_arg of None \<Rightarrow> 30000 | Some t \<Rightarrow> t))
        (butlast (click_selectorsToTry (page_url pw (world s)) selector)) s = Some s0
     \<and> click_attempt pw (case timeout_arg of None \<Rightarrow> 30000 | Some t \<Rightarrow> t) selector s0
        = (Inl lastMessage, s1)
     \<and> page_evalAll pw clickable_query ClickableInfo (world s1) = (found, w2)
     \<longrightarrow> (\<exists>msg. clickElement pw selector timeout_arg s = (Inl msg, s1\<lparr>world := w2\<rparr>)
            \<and> msg = click_failure pw selector
                      (click_selectorsToTry (page_url pw (world s)) selector) lastMessage found
            \<and> str_includes msg lastMessage
            \<and> (case found of
                  Inr clickableElements \<Rightarrow>
                    (\<forall>c \<in> set (click_selectorsToTry (page_url pw (world s)) selector).
                        str_includes msg c)
                    \<and> str_includes msg (JSON_stringify pw (JArr clickableElements) None)
                | Inl evalError \<Rightarrow> str_includes msg evalError)))
    \<and> (all_fail (fill_attempt pw text)
        (butlast (fill_selectorsToTry (page_url pw (world s)) selector)) s = Some f0
     \<and> fill_attempt pw text selector f0 = (Inl fillMessage, f1)
     \<and> page_evalAll pw ''input, textarea, select'' InputInfo (world f1) = (inputs, w3)
     \<longrightarrow> (\<exists>msg. fillInput pw selector text s = (Inl msg, f1\<lparr>world := w3\<rparr>)
            \<and> msg = fill_failure pw selector
                      (fill_selectorsToTry (page_url pw (world s)) selector) fillMessage inputs
            \<and> str_includes msg fillMessage
            \<and> (case inputs of
                  Inr inputElements \<Rightarrow>
                    (\<forall>c \<in> set (fill_selectorsToTry (page_url pw (world s)) selector).
                        str_includes msg c)
                    \<and> str_includes msg (JSON_stringify pw (JArr inputElements) None)
                | Inl evalError \<Rightarrow> str_includes msg evalError)))"
proof (intro conjI impI)
  let ?t = "case timeout_arg of None \<Rightarrow> 30000 | Some t \<Rightarrow> t"
  let ?tried = "click_selectorsToTry (page_url pw (world s)) selector"
  assume h: "all_fail (click_attempt pw ?t) (butlast ?tried) s = Some s0
     \<and> click_attempt pw ?t selector s0 = (Inl lastMessage, s1)
     \<and> page_evalAll pw clickable_query ClickableInfo (world s1) = (found, w2)"
  have split: "?tried = butlast ?tried @ [selector]" by (rule click_selectorsToTry_last)
  have "clickElement pw selector timeout_arg s
      = click_exhausted pw selector (butlast ?tried @ [selector]) (Some lastMessage) s1"
    using h by (intro clickElement_exhausted [OF assms split, where ?s0.0 = s0]) simp_all
  with split have "clickElement pw selector timeout_arg s
      = click_exhausted pw selector ?tried (Some lastMessage) s1" by simp
  with h have run: "clickElement pw selector timeout_arg s
      = (Inl (click_failure pw selector ?tried lastMessage found), s1\<lparr>world := w2\<rparr>)"
    by (cases found) (simp_all add: click_exhausted_result click_failure_def)
  have "case found of
          Inr clickableElements \<Rightarrow>
            (\<forall>c \<in> set ?tried.
                str_includes (click_failure pw selector ?tried lastMessage found) c)
            \<and> str_includes (click_failure pw selector ?tried lastMessage found)
                  (JSON_stringify pw (JArr clickableElements) None)
        | Inl evalError \<Rightarrow>
            str_includes (click_failure pw selector ?tried lastMessage found) evalError"
    by (cases found) (simp_all add: click_failure_contents)
  with run click_failure_contents(1) [of pw selector ?tried lastMessage found]
  show "\<exists>msg. clickElement pw selector timeout_arg s = (Inl msg, s1\<lparr>world := w2\<rparr>)
            \<and> msg = click_failure pw selector ?tried lastMessage found
            \<and> str_includes msg lastMessage
            \<and> (case found of
                  Inr clickableElements \<Rightarrow>
                    (\<forall>c \<in> set ?tried. str_includes msg c)
                    \<and> str_includes msg (JSON_stringify pw (JArr clickableElements) None)
                | Inl evalError \<Rightarrow> str_includes msg evalError)"
    by simp
next
  let ?tried = "fill_selectorsToTry (page_url pw (world s)) selector"
  assume h: "all_fail (fill_attempt pw text) (butlast ?tried) s = Some f0
     \<and> fill_attempt pw text selector f0 = (Inl fillMessage, f1)
     \<and> page_evalAll pw ''input, textarea, select'' InputInfo (world f1) = (inputs, w3)"
  have split: "?tried = butlast ?tried @ [selector]" by (rule fill_selectorsToTry_last)
  have "fillInput pw selector text s
      = fill_exhausted pw selector (butlast ?tried @ [selector]) (Some fillMessage) f1"
    using h by (intro fillInput_exhausted [OF assms split, where ?s0.0 = f0]) simp_all
  with split have "fillInput pw selector text s
      = fill_exhausted pw selector ?tried (Some fillMessage) f1" by simp
  with h have run: "fillInput pw selector text s
      = (Inl (fill_failure pw selector ?tried fillMessage inputs), f1\<lparr>world := w3\<rparr>)"
    by (cases inputs) (simp_all add: fill_exhausted_result fill_failure_def)
  have "case inputs of
          Inr inputElements \<Rightarrow>
            (\<forall>c \<in> set ?tried.
                str_includes (fill_failure pw selector ?tried fillMessage inputs) c)
            \<and> str_includes (fill_failure pw selector ?tried fillMessage inputs)
                  (JSON_stringify pw (JArr inputElements) None)
        | Inl evalError \<Rightarrow>
            str_includes (fill_failure pw selector ?tried fillMessage inputs) evalError"
    by (cases inputs) (simp_all add: fill_failure_contents)
  with run fill_failure_contents(1) [of pw selector ?tried fillMessage inputs]
  show "\<exists>msg. fillInput pw selector text s = (Inl msg, f1\<lparr>world := w3\<rparr>)
            \<and> msg = fill_failure pw selector ?tried fillMessage inputs
            \<and> str_includes msg fillMessage
            \<and> (case inputs of
                  Inr inputElements \<Rightarrow>
                    (\<forall>c \<in> set ?tried. str_includes msg c)
                    \<and> str_includes msg (JSON_stringify pw (JArr inputElements) None)
                | Inl evalError \<Rightarrow> str_includes msg evalError)"
    by simp
qed

text \<open>A click on a GitHub page where nothing matches and the inspection returns no element,
  and a fill on a page that cannot be inspected.\<close>

theorem exhaustion_error_witness:
  "page (fake_session ''https://github.com/'' [] True)
   \<and> all_fail (click_attempt fake 30000)
        (butlast (click_selectorsToTry ''https://github.com/'' ''#go''))
        (fake_session ''https://github.com/'' [] True)
       = Some (fake_session ''https://github.com/'' [] True)
   \<and> click_attempt fake 30000 ''#go'' (fake_session ''https://github.com/'' [] True)
       = (Inl ''Timeout waiting for #go'', fake_session ''https://github.com/'' [] True)
   \<and> page_evalAll fake clickable_query ClickableInfo (fake_page ''https://github.com/'' [] True)
       = (Inr [], fake_page ''https://github.com/'' [] True)
   \<and> clickElement fake ''#go'' None (fake_session ''https://github.com/'' [] True)
       = (Inl (''Failed to click element #go: Timeout waiting for #go. ''
               @ ''Could not inspect available elements: ''
               @ ''Failed to click element with any selector: ''
               @ join '', '' (github_click_selectors @ [''#go''])
               @ ''. Last error: Timeout waiting for #go. Available clickable elements: []''),
          fake_session ''https://github.com/'' [] True)
   \<and> all_fail (fill_attempt fake ''quux'')
        (butlast (fill_selectorsToTry ''https://example.test/'' ''#name''))
        (fake_session ''https://example.test/'' [] False)
       = Some (fake_session ''https://example.test/'' [] False)
   \<and> fill_attempt fake ''quux'' ''#name'' (fake_session ''https://example.test/'' [] False)
       = (Inl ''Timeout waiting for #name'', fake_session ''https://example.test/'' [] False)
   \<and> page_evalAll fake ''input, textarea, select'' InputInfo
        (fake_page ''https://example.test/'' [] False)
       = (Inl ''Execution context was destroyed'', fake_page ''https://example.test/'' [] False)
   \<and> fillInput fake ''#name'' ''quux'' (fake_session ''https://example.test/'' [] False)
       = (Inl (''Failed to fill input #name: Timeout waiting for #name. ''
               @ ''Could not inspect available inputs: Execution context was destroyed''),
          fake_session ''https://example.test/'' [] False)"
proof -
  let ?g = "fake_session ''https://github.com/'' [] True"
  let ?e = "fake_session ''https://example.test/'' [] False"
  have p: "page ?g" "page ?e" by (simp_all add: fake_session_def)
  have url: "page_url fake (world ?g) = ''https://github.com/''"
    "page_url fake (world ?e) = ''https://example.test/''"
    by (simp_all add: fake_simps)
  have w: "world ?g = fake_page ''https://github.com/'' [] True"
    "world ?e = fake_page ''https://example.test/'' [] False"
    by (simp_all add: fake_session_def)
  have c1: "all_fail (click_attempt fake 30000)
        (butlast (click_selectorsToTry ''https://github.com/'' ''#go'')) ?g = Some ?g"
    by (simp add: run_simps)
  have c2: "click_attempt fake 30000 ''#go'' ?g = (Inl ''Timeout waiting for #go'', ?g)"
    by (simp add: run_simps)
  have c3: "page_evalAll fake clickable_query ClickableInfo (fake_page ''https://github.com/'' [] True)
       = (Inr [], fake_page ''https://github.com/'' [] True)"
    by (simp add: fake_simps)
  have f1: "all_fail (fill_attempt fake ''quux'')
        (butlast (fill_selectorsToTry ''https://example.test/'' ''#name'')) ?e = Some ?e"
    by (simp add: run_simps)
  have f2: "fill_attempt fake ''quux'' ''#name'' ?e = (Inl ''Timeout waiting for #name'', ?e)"
    by (simp add: run_simps)
  have f3: "page_evalAll fake ''input, textarea, select'' InputInfo
        (fake_page ''https://example.test/'' [] False)
       = (Inl ''Execution context was destroyed'', fake_page ''https://example.test/'' [] False)"
    by (simp add: fake_simps)
  have same: "?g\<lparr>world := fake_page ''https://github.com/'' [] True\<rparr> = ?g"
    "?e\<lparr>world := fake_page ''https://example.test/'' [] False\<rparr> = ?e"
    by (simp_all add: fake_session_def)
  from exhaustion_error [OF p(1), of fake None "''#go''" ?g "''Timeout waiting for #go''" ?g
      "Inr []" "fake_page ''https://github.com/'' [] True"] c1 c2 c3 url w same
  have click: "clickElement fake ''#go'' None ?g
       = (Inl (click_failure fake ''#go'' (click_selectorsToTry ''https://github.com/'' ''#go'')
                 ''Timeout waiting for #go'' (Inr [])), ?g)"
    by simp
  from exhaustion_error [OF p(2), of fake _ "''#name''" _ _ _ _ _ "''quux''" ?e
      "''Timeout waiting for #name''" ?e "Inl ''Execution context was destroyed''"
      "fake_page ''https://example.test/'' [] False"] f1 f2 f3 url w same
  have fill: "fillInput fake ''#name'' ''quux'' ?e
       = (Inl (fill_failure fake ''#name'' (fill_selectorsToTry ''https://example.test/'' ''#name'')
                 ''Timeout waiting for #name'' (Inl ''Execution context was destroyed'')), ?e)"
    by simp
  have m1: "click_failure fake ''#go'' (click_selectorsToTry ''https://github.com/'' ''#go'')
                 ''Timeout waiting for #go'' (Inr [])
      = ''Failed to click element #go: Timeout waiting for #go. ''
               @ ''Could not inspect available elements: ''
               @ ''Failed to click element with any selector: ''
               @ join '', '' (github_click_selectors @ [''#go''])
               @ ''. Last error: Timeout waiting for #go. Available clickable elements: []''"
    by (simp add: click_failure_def click_selectorsToTry_def fake_def)
  have m2: "fill_failure fake ''#name'' (fill_selectorsToTry ''https://example.test/'' ''#name'')
                 ''Timeout waiting for #name'' (Inl ''Execution context was destroyed'')
      = ''Failed to fill input #name: Timeout waiting for #name. ''
               @ ''Could not inspect available inputs: Execution context was destroyed''"
    by (simp add: fill_failure_def)
  from p c1 c2 c3 f1 f2 f3 click fill show ?thesis unfolding m1 m2 by blast
qed

section \<open>The log across all operations\<close>

lemma atomic_navigateTo: "log_atomic (navigateTo pw url)"
  unfolding navigateTo_def
  by (intro atomic_guard atomic_bindE atomic_push_return keeps_intros)

lemma keeps_click_exhausted: "keeps_log (click_exhausted pw selector tried lastError)"
  unfolding click_exhausted_def by (intro keeps_intros)

lemma keeps_fill_exhausted: "keeps_log (fill_exhausted pw selector tried lastError)"
  unfolding fill_exhausted_def by (intro keeps_intros)

lemma try_then_exhausted_log:
  assumes "\<And>c. log_atomic (attempt c)" and "\<And>lastError. keeps_log (exhausted lastError)"
    and "(case try_each attempt cands None s of
            (Inl result, s1) \<Rightarrow> (Inr result, s1)
          | (Inr lastError, s1) \<Rightarrow> exhausted lastError s1) = (r, s')"
  shows "case r of Inl e \<Rightarrow> actions s' = actions s | Inr a \<Rightarrow> prefix (actions s) (actions s')"
proof -
  obtain r1 s1 where loop: "try_each attempt cands None s = (r1, s1)"
    by (cases "try_each attempt cands None s")
  note log = try_each_log [OF assms(1) loop]
  show ?thesis
  proof (cases r1)
    case (Inl result)
    with assms(3) loop log show ?thesis by auto
  next
    case (Inr lastError)
    with assms(3) loop have "exhausted lastError s1 = (r, s')" by simp
    with assms(2) have "actions s' = actions s1" by (metis keeps_logD)
    with log Inr show ?thesis by (cases r) simp_all
  qed
qed

lemma atomic_clickElement: "log_atomic (clickElement pw selector timeout_arg)"
proof -
  have "case r of Inl e \<Rightarrow> actions s' = actions s | Inr a \<Rightarrow> prefix (actions s) (actions s')"
    if h: "clickElement pw selector timeout_arg s = (r, s')" for s r s'
  proof (cases "page s")
    case False
    with h show ?thesis by (auto simp: clickElement_def throwE_def Let_def)
  next
    case True
    with h show ?thesis
      unfolding clickElement_def Let_def click_loop_try_each
      by (intro try_then_exhausted_log [OF atomic_click_attempt keeps_click_exhausted]) simp
  qed
  then show ?thesis by (intro log_atomicI) force+
qed

lemma atomic_fillInput: "log_atomic (fillInput pw selector text)"
proof -
  have "case r of Inl e \<Rightarrow> actions s' = actions s | Inr a \<Rightarrow> prefix (actions s) (actions s')"
    if h: "fillInput pw selector text s = (r, s')" for s r s'
  proof (cases "page s")
    case False
    with h show ?thesis by (auto simp: fillInput_def throwE_def Let_def)
  next
    case True
    with h show ?thesis
      unfolding fillInput_def Let_def fill_loop_try_each
      by (intro try_then_exhausted_log [OF atomic_fill_attempt keeps_fill_exhausted]) simp
  qed
  then show ?thesis by (intro log_atomicI) force+
qed

lemma atomic_waitForElement: "log_atomic (waitForElement pw selector timeout_arg)"
  unfolding waitForElement_def Let_def
  by (intro atomic_guard atomic_bindE atomic_push_return keeps_intros)

lemma atomic_takeScreenshot: "log_atomic (takeScreenshot pw filename_arg)"
  unfolding takeScreenshot_def Let_def
  by (intro atomic_guard atomic_bindE atomic_push_return keeps_intros)

lemma keeps_search_input_attempt: "keeps_log (search_input_attempt pw query selector)"
  unfolding search_input_attempt_def
  by (intro keeps_intros) (simp add: keeps_intros)

lemma search_input_loop_log:
  "search_input_loop pw query cs s = (r, s') \<Longrightarrow> actions s' = actions s"
proof (induction cs arbitrary: s)
  case Nil
  then show ?case by (simp add: throwE_def)
next
  case (Cons c cs)
  obtain r1 s1 where a: "search_input_attempt pw query c s = (r1, s1)"
    by (cases "search_input_attempt pw query c s")
  then have same: "actions s1 = actions s"
    using keeps_search_input_attempt by (rule keeps_logD [rotated])
  show ?case
  proof (cases "r1 = Inr True")
    case True
    with Cons.prems a same show ?thesis by simp
  next
    case False
    with Cons.prems a have "search_input_loop pw query cs s1 = (r, s')"
      by (cases r1) (auto split: bool.splits)
    then have "actions s' = actions s1" by (rule Cons.IH)
    with same show ?thesis by simp
  qed
qed

lemma keeps_search_input_loop: "keeps_log (search_input_loop pw query cs)"
  by (rule keeps_logI) (rule search_input_loop_log)

lemma keeps_searchStrategies:
  "strategy \<in> set (searchStrategies pw query) \<Longrightarrow> keeps_log strategy"
  by (auto simp: searchStrategies_def keeps_search_input_loop keeps_intros split: sum.splits)

lemma run_strategies_log:
  assumes "\<And>strategy. strategy \<in> set strategies \<Longrightarrow> keeps_log strategy"
  shows "run_strategies strategies lastError s = (r, s') \<Longrightarrow> actions s' = actions s"
  using assms
proof (induction strategies arbitrary: lastError s)
  case Nil
  then show ?case by simp
next
  case (Cons st sts)
  obtain r1 s1 where a: "st s = (r1, s1)" by (cases "st s")
  have "keeps_log st" using Cons.prems(2) by simp
  with a have same: "actions s1 = actions s" by (metis keeps_logD)
  show ?case
  proof (cases r1)
    case (Inl e)
    with Cons.prems(1) a have "run_strategies sts (Some e) s1 = (r, s')" by simp
    then have "actions s' = actions s1" using Cons.prems(2) by (intro Cons.IH) simp_all
    with same show ?thesis by simp
  next
    case (Inr used)
    with Cons.prems(1) a same show ?thesis by auto
  qed
qed

lemma keeps_run_strategies:
  "keeps_log (\<lambda>s. case run_strategies (searchStrategies pw query) None s of
                    (r, s') \<Rightarrow> (Inr r, s'))"
proof (rule keeps_logI)
  fix s s' :: "'a driver" and r :: "string + string option \<times> string option"
  assume h: "(case run_strategies (searchStrategies pw query) None s of
                (r, s') \<Rightarrow> (Inr r, s')) = (r, s')"
  obtain r1 s1 where run: "run_strategies (searchStrategies pw query) None s = (r1, s1)"
    by (cases "run_strategies (searchStrategies pw query) None s")
  with h have "s1 = s'" by simp
  moreover have "actions s1 = actions s"
    by (rule run_strategies_log [OF keeps_searchStrategies run])
  ultimately show "actions s' = actions s" by simp
qed

lemma atomic_githubSearch: "log_atomic (githubSearch pw query)"
  unfolding githubSearch_def
  apply (rule atomic_guard)
  apply (rule atomic_catchE)
   apply (rule atomic_bindE)
    apply (rule keeps_run_strategies)
  subgoal for a
    apply (cases a)
    apply (simp only: prod.case)
    apply (rule atomic_if)
     apply (intro atomic_keeps keeps_intros)
    apply (rule atomic_bindE)
     apply (intro keeps_intros)
    apply (rule atomic_push_return)
    done
  apply (intro keeps_intros)
  done

lemma keeps_inspectPage: "keeps_log (inspectPage pw elementType)"
  unfolding inspectPage_def by (intro keeps_guard keeps_intros)

lemma keeps_getPageContent: "keeps_log (getPageContent pw)"
  unfolding getPageContent_def by (intro keeps_guard keeps_intros)

lemma keeps_generateTest: "keeps_log (generateTest testName description providedActions)"
  by (simp add: generateTest_def Let_def keeps_log_def returnE_def)

lemma launchBrowser_result:
  "launchBrowser pw headless s =
     (if browser s then
        (Inr (text_result (''Browser already running in '' @ mode headless @ '' mode'')), s)
      else
        case chromium_launch pw headless (world s) of
          (Inl e, w1) \<Rightarrow> (Inl e, s\<lparr>world := w1\<rparr>)
        | (Inr u, w1) \<Rightarrow>
            (case browser_newPage pw w1 of
               (Inl e, w2) \<Rightarrow> (Inl e, s\<lparr>browser := True, world := w2\<rparr>)
             | (Inr v, w2) \<Rightarrow>
                 (Inr (text_result (''Browser launched in '' @ mode headless @ '' mode'')),
                  \<lparr>browser = True, page = True, actions = [], world = w2\<rparr>)))"
  by (simp add: launchBrowser_def bindE_def on_world_def modify_def returnE_def
        split: prod.splits sum.splits)

lemma closeBrowser_result:
  "closeBrowser pw s =
     (if browser s then
        case browser_close pw (world s) of
          (Inl e, w1) \<Rightarrow> (Inl e, s\<lparr>world := w1\<rparr>)
        | (Inr u, w1) \<Rightarrow>
            (Inr (text_result ''Browser closed successfully''),
             \<lparr>browser = False, page = False, actions = [], world = w1\<rparr>)
      else (Inr (text_result ''No browser to close''), s))"
  by (simp add: closeBrowser_def bindE_def on_world_def modify_def returnE_def
        split: prod.splits sum.splits)

lemma launchBrowser_log:
  "launchBrowser pw headless s = (r, s') \<Longrightarrow>
     (case r of Inl e \<Rightarrow> actions s' = actions s
      | Inr a \<Rightarrow> actions s' = actions s \<or> actions s' = [])"
  by (auto simp: launchBrowser_result split: if_splits prod.splits sum.splits)

lemma closeBrowser_log:
  "closeBrowser pw s = (r, s') \<Longrightarrow>
     (case r of Inl e \<Rightarrow> actions s' = actions s
      | Inr a \<Rightarrow> actions s' = actions s \<or> actions s' = [])"
  by (auto simp: closeBrowser_result split: if_splits prod.splits sum.splits)

lemma atomic_dispatch:
  assumes "name \<noteq> ''launch_browser''" and "name \<noteq> ''close_browser''"
  shows "log_atomic (dispatch pw name args)"
  unfolding dispatch_def
  apply (simp only: assms if_False)
  apply (intro atomic_if atomic_bindE keeps_intros atomic_navigateTo atomic_clickElement
        atomic_fillInput atomic_waitForElement atomic_takeScreenshot atomic_githubSearch
        atomic_keeps [OF keeps_inspectPage] atomic_keeps [OF keeps_getPageContent]
        atomic_keeps [OF keeps_generateTest] atomic_throwE)
  done

lemma dispatch_launch:
  "dispatch pw ''launch_browser'' args
     = launchBrowser pw (case opt_prop args arg_headless of None \<Rightarrow> False | Some h \<Rightarrow> h)"
  by (simp add: dispatch_def)

lemma dispatch_close: "dispatch pw ''close_browser'' args = closeBrowser pw"
  by (simp add: dispatch_def)

lemma dispatch_log:
  assumes "dispatch pw name args s = (r, s')"
  shows "case r of
           Inl e \<Rightarrow> actions s' = actions s
         | Inr a \<Rightarrow> prefix (actions s) (actions s')
             \<or> ((name = ''launch_browser'' \<or> name = ''close_browser'') \<and> actions s' = [])"
proof (cases "name = ''launch_browser'' \<or> name = ''close_browser''")
  case True
  then show ?thesis
  proof
    assume n: "name = ''launch_browser''"
    with assms have "launchBrowser pw (case opt_prop args arg_headless of None \<Rightarrow> False | Some h \<Rightarrow> h) s = (r, s')"
      by (simp only: dispatch_launch)
    from launchBrowser_log [OF this] n show ?thesis by (cases r) auto
  next
    assume n: "name = ''close_browser''"
    with assms have "closeBrowser pw s = (r, s')" by (simp only: dispatch_close)
    from closeBrowser_log [OF this] n show ?thesis by (cases r) auto
  qed
next
  case False
  then have atomic: "log_atomic (dispatch pw name args)" by (simp add: atomic_dispatch)
  show ?thesis
  proof (cases r)
    case (Inl e)
    with assms atomic show ?thesis by (simp add: log_atomic_Inl)
  next
    case (Inr a)
    with assms atomic show ?thesis by (simp add: log_atomic_Inr)
  qed
qed

lemma callTool_result:
  "callTool pw name args s = (result, s') \<Longrightarrow>
     \<exists>r. dispatch pw name args s = (r, s')"
  by (auto simp: callTool_def split: prod.splits sum.splits)

text \<open>Claim C10. Whatever the tool and its arguments, when the handler throws (no page, every
  candidate failed, or the browser threw) the action log is the log from before the call;
  the router then returns the error result.\<close>

theorem failure_leaves_log:
  assumes "dispatch pw name args s = (Inl error, s')"
  shows "actions s' = actions s
    \<and> callTool pw name args s = (text_result (''Error executing '' @ name @ '': '' @ error), s')"
  using dispatch_log [OF assms] assms by (simp add: callTool_def)

text \<open>A click whose only candidate fails, after one navigation.\<close>

theorem failure_leaves_log_witness:
  "dispatch fake ''click_element'' (Some (no_args\<lparr>arg_selector := ''#go''\<rparr>))
       ((fake_session ''https://example.test/'' [] True)
          \<lparr>actions := visited\<rparr>)
     = (Inl (click_failure fake ''#go'' [''#go''] ''Timeout waiting for #go'' (Inr [])),
        (fake_session ''https://example.test/'' [] True)
          \<lparr>actions := visited\<rparr>)
   \<and> actions ((fake_session ''https://example.test/'' [] True)
          \<lparr>actions := visited\<rparr>)
     = visited"
proof -
  have run: "dispatch fake ''click_element'' (Some (no_args\<lparr>arg_selector := ''#go''\<rparr>))
       ((fake_session ''https://example.test/'' [] True)
          \<lparr>actions := visited\<rparr>)
     = (Inl (click_failure fake ''#go'' [''#go''] ''Timeout waiting for #go'' (Inr [])),
        (fake_session ''https://example.test/'' [] True)
          \<lparr>actions := visited\<rparr>)"
    by (simp add: dispatch_def read_prop_def no_args_def clickElement_def click_selectorsToTry_def
          click_attempt_def click_exhausted_def message_of_def click_failure_def clickable_query_def
          visited_def
          fake_simps)
  from failure_leaves_log [OF run] run show ?thesis by simp
qed

text \<open>Claim C6. A tool call either leaves the records of the log in place and in order (the
  old log is a prefix of the new one), or it is a launch or a close and the new log is
  empty. A launch with a browser running changes nothing; a launch without one, when the
  browser starts and opens its page, gives the session with an empty log; a close with a
  browser running, when the browser closes, gives the state without session and with an
  empty log; a close without a browser changes nothing.\<close>

theorem log_append_only:
  assumes "callTool pw name args s = (result, s')"
  shows "(prefix (actions s) (actions s')
          \<or> ((name = ''launch_browser'' \<or> name = ''close_browser'') \<and> actions s' = []))
    \<and> (name = ''launch_browser'' \<and> browser s \<longrightarrow> s' = s)
    \<and> (name = ''launch_browser'' \<and> \<not> browser s
         \<and> chromium_launch pw (case opt_prop args arg_headless of None \<Rightarrow> False | Some h \<Rightarrow> h)
               (world s) = (Inr (), w1)
         \<and> browser_newPage pw w1 = (Inr (), w2)
         \<longrightarrow> s' = \<lparr>browser = True, page = True, actions = [], world = w2\<rparr>)
    \<and> (name = ''close_browser'' \<and> browser s \<and> browser_close pw (world s) = (Inr (), w3)
         \<longrightarrow> s' = \<lparr>browser = False, page = False, actions = [], world = w3\<rparr>)
    \<and> (name = ''close_browser'' \<and> \<not> browser s \<longrightarrow> s' = s)"
proof (intro conjI impI)
  from callTool_result [OF assms] obtain r where d: "dispatch pw name args s = (r, s')" ..
  from dispatch_log [OF d]
  show "prefix (actions s) (actions s')
          \<or> ((name = ''launch_browser'' \<or> name = ''close_browser'') \<and> actions s' = [])"
    by (cases r) simp_all
next
  assume "name = ''launch_browser'' \<and> browser s"
  with assms show "s' = s"
    by (simp add: callTool_def dispatch_launch launchBrowser_result)
next
  assume "name = ''launch_browser'' \<and> \<not> browser s
         \<and> chromium_launch pw (case opt_prop args arg_headless of None \<Rightarrow> False | Some h \<Rightarrow> h)
               (world s) = (Inr (), w1)
         \<and> browser_newPage pw w1 = (Inr (), w2)"
  with assms show "s' = \<lparr>browser = True, page = True, actions = [], world = w2\<rparr>"
    by (simp add: callTool_def dispatch_launch launchBrowser_result)
next
  assume "name = ''close_browser'' \<and> browser s \<and> browser_close pw (world s) = (Inr (), w3)"
  with assms show "s' = \<lparr>browser = False, page = False, actions = [], world = w3\<rparr>"
    by (simp add: callTool_def dispatch_close closeBrowser_result)
next
  assume "name = ''close_browser'' \<and> \<not> browser s"
  with assms show "s' = s"
    by (simp add: callTool_def dispatch_close closeBrowser_result)
qed

text \<open>Launch, navigate, launch again, close, close again.\<close>

theorem log_append_only_witness:
  "callTool fake ''launch_browser'' None (PlaywrightMCPServer (fake_page [] [] True))
     = (text_result ''Browser launched in headed mode'', fake_session [] [] True)
   \<and> callTool fake ''navigate_to'' (Some (no_args\<lparr>arg_url := ''https://example.test/''\<rparr>))
       (fake_session [] [] True)
     = (text_result ''Navigated to https://example.test/'',
        (fake_session ''https://example.test/'' [] True)\<lparr>actions := visited\<rparr>)
   \<and> prefix (actions (fake_session [] [] True))
        (actions ((fake_session ''https://example.test/'' [] True)\<lparr>actions := visited\<rparr>))
   \<and> callTool fake ''launch_browser'' None
       ((fake_session ''https://example.test/'' [] True)\<lparr>actions := visited\<rparr>)
     = (text_result ''Browser already running in headed mode'',
        (fake_session ''https://example.test/'' [] True)\<lparr>actions := visited\<rparr>)
   \<and> callTool fake ''close_browser'' None
       ((fake_session ''https://example.test/'' [] True)\<lparr>actions := visited\<rparr>)
     = (text_result ''Browser closed successfully'',
        PlaywrightMCPServer (fake_page ''https://example.test/'' [] True))
   \<and> callTool fake ''close_browser'' None
       (PlaywrightMCPServer (fake_page ''https://example.test/'' [] True))
     = (text_result ''No browser to close'',
        PlaywrightMCPServer (fake_page ''https://example.test/'' [] True))"
proof -
  let ?fresh = "PlaywrightMCPServer (fake_page [] [] True)"
  let ?open = "fake_session [] [] True"
  let ?used = "(fake_session ''https://example.test/'' [] True)\<lparr>actions := visited\<rparr>"
  let ?closed = "PlaywrightMCPServer (fake_page ''https://example.test/'' [] True)"
  have launch: "callTool fake ''launch_browser'' None ?fresh
     = (text_result ''Browser launched in headed mode'', ?open)"
    by (simp add: callTool_def dispatch_def opt_prop_def launchBrowser_def mode_def fake_simps)
  have navigate: "callTool fake ''navigate_to'' (Some (no_args\<lparr>arg_url := ''https://example.test/''\<rparr>))
       ?open = (text_result ''Navigated to https://example.test/'', ?used)"
    by (simp add: callTool_def dispatch_def read_prop_def no_args_def navigateTo_def visited_def
          fake_simps)
  have relaunch: "callTool fake ''launch_browser'' None ?used
     = (text_result ''Browser already running in headed mode'', ?used)"
    by (simp add: callTool_def dispatch_def opt_prop_def launchBrowser_def mode_def fake_simps)
  have close: "callTool fake ''close_browser'' None ?used
     = (text_result ''Browser closed successfully'', ?closed)"
    by (simp add: callTool_def dispatch_def closeBrowser_def fake_simps)
  have reclose: "callTool fake ''close_browser'' None ?closed
     = (text_result ''No browser to close'', ?closed)"
    by (simp add: callTool_def dispatch_def closeBrowser_def fake_simps)
  have "prefix (actions ?open) (actions ?used)"
    using log_append_only [OF navigate] by simp
  moreover note log_append_only [OF launch, of "fake_page [] [] True" "fake_page [] [] True"]
    log_append_only [OF relaunch] log_append_only [OF close, of _ _ "fake_page ''https://example.test/'' [] True"]
    log_append_only [OF reclose]
  ultimately show ?thesis using launch navigate relaunch close reclose by simp
qed

section \<open>The router\<close>

text \<open>Claim C2, as stated, fails on the type of the content item: the router answers an
  unknown tool with an item of type \<^verbatim>\<open>text\<close>, not \<^verbatim>\<open>text703\<close>.\<close>

theorem error_envelope_counterexample:
  "dispatch fake ''press_key'' None (fake_session [] [] True)
     = (Inl ''Unknown tool: press_key'', fake_session [] [] True)
   \<and> fst (callTool fake ''press_key'' None (fake_session [] [] True))
     \<noteq> [\<lparr>item_type = ''text703'',
          item_text = ''Error executing press_key: Unknown tool: press_key''\<rparr>]"
  by (simp add: callTool_def dispatch_def throwE_def text_result_def)

text \<open>Claim C2, amended. For every tool name and argument payload, when the handler throws
  with a message, the router returns the result whose one content item has the type
  \<^verbatim>\<open>text\<close> and the text \<^verbatim>\<open>Error executing <tool>: <message>\<close>; a name outside the catalog
  makes the handler throw \<^verbatim>\<open>Unknown tool: <tool>\<close>. The router is a total function into
  results: it has no exception of its own.\<close>

theorem error_envelope:
  "(dispatch pw name args s = (Inl message, s') \<longrightarrow>
      callTool pw name args s
        = ([\<lparr>item_type = ''text'', item_text = ''Error executing '' @ name @ '': '' @ message\<rparr>],
           s'))
   \<and> (name \<notin> set tool_names \<longrightarrow>
        dispatch pw name args s = (Inl (''Unknown tool: '' @ name), s))
   \<and> dispatch pw ''navigate_to'' None s = (Inl (undefined_read ''url''), s)
   \<and> dispatch pw ''click_element'' None s = (Inl (undefined_read ''selector''), s)
   \<and> dispatch pw ''fill_input'' None s = (Inl (undefined_read ''selector''), s)
   \<and> dispatch pw ''wait_for_element'' None s = (Inl (undefined_read ''selector''), s)
   \<and> dispatch pw ''github_search'' None s = (Inl (undefined_read ''query''), s)
   \<and> dispatch pw ''generate_test'' None s = (Inl (undefined_read ''testName''), s)"
proof (intro conjI impI)
  assume "dispatch pw name args s = (Inl message, s')"
  then show "callTool pw name args s
        = ([\<lparr>item_type = ''text'', item_text = ''Error executing '' @ name @ '': '' @ message\<rparr>],
           s')"
    by (simp add: callTool_def text_result_def)
next
  assume "name \<notin> set tool_names"
  then show "dispatch pw name args s = (Inl (''Unknown tool: '' @ name), s)"
    by (simp add: dispatch_def tool_names_def throwE_def)
qed (simp_all add: dispatch_def read_prop_def bindE_def throwE_def)

theorem error_envelope_witness:
  "dispatch fake ''press_key'' None (fake_session [] [] True)
     = (Inl ''Unknown tool: press_key'', fake_session [] [] True)
   \<and> ''press_key'' \<notin> set tool_names
   \<and> callTool fake ''press_key'' None (fake_session [] [] True)
     = ([\<lparr>item_type = ''text'',
          item_text = ''Error executing press_key: Unknown tool: press_key''\<rparr>],
        fake_session [] [] True)
   \<and> callTool fake ''navigate_to'' None (fake_session [] [] True)
     = ([\<lparr>item_type = ''text'',
          item_text = ''Error executing navigate_to: ''
            @ ''Cannot read properties of undefined (reading '' @ sq @ ''url'' @ sq @ '')''\<rparr>],
        fake_session [] [] True)"
  using error_envelope [of fake "''press_key''" None "fake_session [] [] True"
      "''Unknown tool: press_key''" "fake_session [] [] True"]
    error_envelope [of fake "''navigate_to''" None "fake_session [] [] True"
      "undefined_read ''url''" "fake_session [] [] True"]
  by (simp add: tool_names_def undefined_read_def quoted_def)

lemma no_page:
  assumes "\<not> page s"
  shows "navigateTo pw url s = (Inl not_launched, s)"
    and "clickElement pw selector timeout_arg s = (Inl not_launched, s)"
    and "fillInput pw selector text s = (Inl not_launched, s)"
    and "waitForElement pw selector timeout_arg s = (Inl not_launched, s)"
    and "takeScreenshot pw filename_arg s = (Inl not_launched, s)"
    and "githubSearch pw query s = (Inl not_launched, s)"
    and "inspectPage pw elementType s = (Inl not_launched, s)"
    and "getPageContent pw s = (Inl not_launched, s)"
  using assms
  by (simp_all add: navigateTo_def clickElement_def fillInput_def waitForElement_def
        takeScreenshot_def githubSearch_def inspectPage_def getPageContent_def throwE_def)

lemma read_prop_Some: "bindE (read_prop (Some a) p get) f = f (get a)"
  by (simp add: read_prop_def bindE_def returnE_def)

text \<open>Claim C3, as stated, fails for the tools without a session check: before any launch,
  \<^verbatim>\<open>close_browser\<close> returns \<^verbatim>\<open>No browser to close\<close>, \<^verbatim>\<open>generate_test\<close> returns a script and
  \<^verbatim>\<open>launch_browser\<close> launches.\<close>

theorem missing_session_error_counterexample:
  "\<not> page (PlaywrightMCPServer (fake_page [] [] True))
   \<and> \<not> browser (PlaywrightMCPServer (fake_page [] [] True))
   \<and> dispatch fake ''close_browser'' None (PlaywrightMCPServer (fake_page [] [] True))
     = (Inr (text_result ''No browser to close''), PlaywrightMCPServer (fake_page [] [] True))
   \<and> callTool fake ''close_browser'' None (PlaywrightMCPServer (fake_page [] [] True))
     = (text_result ''No browser to close'', PlaywrightMCPServer (fake_page [] [] True))
   \<and> callTool fake ''generate_test'' (Some (no_args\<lparr>arg_testName := ''t''\<rparr>))
        (PlaywrightMCPServer (fake_page [] [] True))
     = (text_result (generatePlaywrightTest ''t'' [] []),
        PlaywrightMCPServer (fake_page [] [] True))
   \<and> callTool fake ''launch_browser'' None (PlaywrightMCPServer (fake_page [] [] True))
     = (text_result ''Browser launched in headed mode'', fake_session [] [] True)"
  by (simp add: callTool_def dispatch_def closeBrowser_def launchBrowser_def generateTest_def
        read_prop_def opt_prop_def no_args_def mode_def fake_simps)

text \<open>Claim C3, amended. For the eight tools that work on the page, called with a payload (or
  without one, for the three that read it with \<^verbatim>\<open>args?.\<close> or not at all) while no page is
  open, the handler throws \<^verbatim>\<open>Browser not launched. Call launch_browser first.\<close>, and the
  router returns the error result for it and leaves the driver as it was.\<close>

theorem missing_session_error:
  assumes "\<not> page s" and "name \<in> set page_tools"
    and "args \<noteq> None \<or> name \<in> {''take_screenshot'', ''inspect_page'', ''get_page_content''}"
  shows "dispatch pw name args s = (Inl ''Browser not launched. Call launch_browser first.'', s)
    \<and> callTool pw name args s
        = (text_result (''Error executing '' @ name
             @ '': Browser not launched. Call launch_browser first.''), s)"
proof -
  have free: "dispatch pw name args s = (Inl not_launched, s)"
    if "name \<in> {''take_screenshot'', ''inspect_page'', ''get_page_content''}"
    using that assms(1) by (auto simp: dispatch_def no_page)
  have given: "dispatch pw name (Some a) s = (Inl not_launched, s)" for a
    using assms(1,2)
    by (auto simp: page_tools_def dispatch_def read_prop_Some no_page)
  have "dispatch pw name args s = (Inl not_launched, s)"
  proof (cases args)
    case None
    with assms(3) free show ?thesis by simp
  next
    case (Some a)
    with given show ?thesis by simp
  qed
  then show ?thesis by (simp add: callTool_def not_launched_def)
qed

theorem missing_session_error_witness:
  "\<not> page (PlaywrightMCPServer (fake_page [] [] True))
   \<and> ''navigate_to'' \<in> set page_tools
   \<and> Some (no_args\<lparr>arg_url := ''https://example.test/''\<rparr>) \<noteq> None
   \<and> callTool fake ''navigate_to'' (Some (no_args\<lparr>arg_url := ''https://example.test/''\<rparr>))
        (PlaywrightMCPServer (fake_page [] [] True))
     = (text_result
          ''Error executing navigate_to: Browser not launched. Call launch_browser first.'',
        PlaywrightMCPServer (fake_page [] [] True))
   \<and> ''get_page_content'' \<in> set page_tools
   \<and> callTool fake ''get_page_content'' None (PlaywrightMCPServer (fake_page [] [] True))
     = (text_result
          ''Error executing get_page_content: Browser not launched. Call launch_browser first.'',
        PlaywrightMCPServer (fake_page [] [] True))"
proof -
  have p: "\<not> page (PlaywrightMCPServer (fake_page [] [] True))"
    by (simp add: PlaywrightMCPServer_def)
  have n: "''navigate_to'' \<in> set page_tools" "''get_page_content'' \<in> set page_tools"
    by (simp_all add: page_tools_def)
  from missing_session_error [OF p n(1), of "Some (no_args\<lparr>arg_url := ''https://example.test/''\<rparr>)" fake]
    missing_session_error [OF p n(2), of None fake] p n
  show ?thesis by simp
qed

section \<open>The transport bridge\<close>

lemma settle_call_messageId [simp]: "messageId (settle_call i outcome b) = messageId b"
  by (simp add: settle_call_def split: option.splits)


lemma onData_messageId [simp]: "messageId (onData i d b) = messageId b"
  by (simp add: onData_def Let_def split: frame.splits option.splits)

lemma foldl_onData_messageId: "messageId (foldl (\<lambda>b i. onData i d b) b ls) = messageId b"
  by (induction ls arbitrary: b) simp_all



lemma stdout_data_messageId [simp]: "messageId (stdout_data d b) = messageId b"
  by (simp add: stdout_data_def foldl_onData_messageId)

lemma timer_fires_messageId [simp]: "messageId (timer_fires i b) = messageId b"
  by (simp add: timer_fires_def)

lemma stderr_data_messageId [simp]: "messageId (stderr_data chunk b) = messageId b"
  by (simp add: stderr_data_def)








lemmas bridge_simps =
  connected_def AIPlaywrightIntegration_def stderr_data_def sendMCPRequest_def Let_def
  stdout_data_def onData_def timer_fires_def settle_call_def settle_def



lemma settle_call_settled:
  "promises b i = Some p \<Longrightarrow> p \<noteq> Pending \<Longrightarrow> promises (settle_call k out b) i = Some p"
  by (cases p) (auto simp: settle_call_def settle_def split: option.splits)

lemma onData_settled:
  "promises b i = Some p \<Longrightarrow> p \<noteq> Pending \<Longrightarrow> promises (onData k d b) i = Some p"
  by (cases d) (auto simp: onData_def Let_def settle_call_settled split: option.splits)

lemma foldl_onData_settled:
  "promises b i = Some p \<Longrightarrow> p \<noteq> Pending \<Longrightarrow>
     promises (foldl (\<lambda>b k. onData k d b) b ls) i = Some p"
  by (induction ls arbitrary: b) (simp_all add: onData_settled)

text \<open>A settled call stays as it is, whatever happens next.\<close>

lemma settled_is_final:
  assumes "promises b i = Some p" and "p \<noteq> Pending" and "i \<le> messageId b"
  shows "promises (step e b) i = Some p"
proof (cases e)
  case (Send m1 p1)
  with assms show ?thesis by (simp add: sendMCPRequest_def Let_def)
next
  case (Data d)
  with assms show ?thesis by (simp add: stdout_data_def foldl_onData_settled)
next
  case (Timer k)
  with assms show ?thesis by (simp add: timer_fires_def settle_call_settled)
next
  case (Stderr chunk)
  with assms show ?thesis by (simp add: stderr_data_def)
qed

text \<open>Claim C4 says that a call whose response does not arrive before its timer runs out is
  rejected once, that its listener is removed, and that a later response does not resolve
  it. At one call with no response whose timer fires, the call is rejected with
  \<^verbatim>\<open>MCP request timeout\<close> and its timer is gone, but its listener is still registered;
  a response that arrives afterwards leaves the call rejected, and only then is the
  listener removed.\<close>

theorem timeout_leaves_listener:
  "promises (timer_fires 1 (step (Send ''tools/call'' ''a'') (connected :: (string, string) bridge))) 1
     = Some (Rejected ''MCP request timeout'')
   \<and> listeners (timer_fires 1 (step (Send ''tools/call'' ''a'') (connected :: (string, string) bridge)))
     = [1]
   \<and> timers (timer_fires 1 (step (Send ''tools/call'' ''a'') (connected :: (string, string) bridge)))
     = []
   \<and> promises (stdout_data (Response 1 None ''late'')
        (timer_fires 1 (step (Send ''tools/call'' ''a'') (connected :: (string, string) bridge)))) 1
     = Some (Rejected ''MCP request timeout'')
   \<and> listeners (stdout_data (Response 1 None ''late'')
        (timer_fires 1 (step (Send ''tools/call'' ''a'') (connected :: (string, string) bridge))))
     = []"
  by (simp add: bridge_simps)

end
